theory Spec2Isabelle
  imports Main "HOL-Library.AList" "HOL-Library.Sublist" "HOL-Library.Char_ord"
    "HOL-Library.List_Lexorder" "HOL-Library.Product_Lexorder"
begin

section \<open>Python values used by wstat.py and wstat2.py\<close>

text \<open>
  Exceptions the modelled code can raise. None of them is caught anywhere in the two
  programs, so each one ends the invocation. \<open>SystemExit n\<close> is \<open>sys.exit(n)\<close>.
\<close>

datatype py_error = IndexError | KeyError | ValueError | AssertionError | SystemExit nat

text \<open>
  A Python \<open>dict\<close> is an association list in insertion order with distinct keys:
  \<open>d[k]\<close> is \<open>dict_get\<close> (KeyError when the key is absent), \<open>d[k] = v\<close> is
  \<open>AList.update\<close> (in place when the key exists, appended otherwise) and
  \<open>d[k] += 1\<close> is \<open>dict_incr\<close>.
\<close>

definition dict_get :: "('k \<times> 'v) list \<Rightarrow> 'k \<Rightarrow> py_error + 'v" where
  "dict_get d k = (case map_of d k of None \<Rightarrow> Inl KeyError | Some v \<Rightarrow> Inr v)"

definition dict_incr :: "('k \<times> nat) list \<Rightarrow> 'k \<Rightarrow> py_error + ('k \<times> nat) list" where
  "dict_incr d k = (case map_of d k of None \<Rightarrow> Inl KeyError
                     | Some v \<Rightarrow> Inr (AList.update k (v + 1) d))"

text \<open>
  \<open>xs[i]\<close> on a Python list: indices \<open>0 .. len-1\<close> read from the front,
  \<open>-len .. -1\<close> from the back, anything else raises IndexError.
\<close>

definition py_index :: "'a list \<Rightarrow> int \<Rightarrow> py_error + 'a" where
  "py_index xs i =
     (if 0 \<le> i \<and> i < int (length xs) then Inr (xs ! nat i)
      else if i < 0 \<and> - int (length xs) \<le> i then Inr (xs ! nat (int (length xs) + i))
      else Inl IndexError)"

text \<open>Sequencing of statements that may raise: the first exception ends the computation.\<close>

definition ebind :: "'e + 'a \<Rightarrow> ('a \<Rightarrow> 'e + 'b) \<Rightarrow> 'e + 'b" where
  "ebind x f = (case x of Inl e \<Rightarrow> Inl e | Inr a \<Rightarrow> f a)"

text \<open>
  Library functions the programs call and whose code is not part of the repository.
  They are parameters of the model:
  \<^item> \<open>py_int s\<close> is \<open>int(s)\<close> on a string (\<open>None\<close>: ValueError);
  \<^item> \<open>strptime s\<close> is \<open>datetime.datetime.strptime(s,'%Y-%m-%d %H:%M:%S.%f')\<close> as a
    number of microseconds (\<open>None\<close>: ValueError);
  \<^item> \<open>strftime t\<close> is \<open>.strftime('%Y-%m-%d %H:%M:%S')\<close>;
  \<^item> \<open>splitext p\<close> is \<open>os.path.splitext(p)[0]\<close>.
\<close>

record pylib =
  py_int :: "string \<Rightarrow> int option"
  strptime :: "string \<Rightarrow> int option"
  strftime :: "int \<Rightarrow> string"
  splitext :: "string \<Rightarrow> string"

definition to_int :: "pylib \<Rightarrow> string \<Rightarrow> py_error + int" where
  "to_int L s = (case py_int L s of None \<Rightarrow> Inl ValueError | Some k \<Rightarrow> Inr k)"

text \<open>\<open>os.path.basename\<close> (posixpath): what follows the last slash.\<close>

definition basename :: "string \<Rightarrow> string" where
  "basename p = rev (takeWhile (\<lambda>c. c \<noteq> CHR ''/'') (rev p))"

text \<open>
  A concrete stand-in for the library, used to run the model on explicit inputs: a string
  of decimal digits is read as its value (as \<open>int\<close> does, so \<open>int('000') = 0\<close>), a
  time string is read as a decimal count of microseconds and printed as the empty string.
\<close>

definition dec_int :: "string \<Rightarrow> int option" where
  "dec_int s =
     (if s \<noteq> [] \<and> list_all (\<lambda>c. 48 \<le> (of_char c :: nat) \<and> (of_char c :: nat) \<le> 57) s
      then Some (foldl (\<lambda>a c. 10 * a + (of_char c - 48)) 0 s) else None)"

definition testlib :: pylib where
  "testlib = \<lparr>py_int = dec_int, strptime = dec_int, strftime = (\<lambda>t. []),
               splitext = (\<lambda>p. p)\<rparr>"

subsection \<open>Parsl time stamps (wstat.py)\<close>

definition stripms :: "pylib \<Rightarrow> string option \<Rightarrow> py_error + string option" where
  "stripms L intime =
     (case intime of None \<Rightarrow> Inr None
      | Some s \<Rightarrow> (case strptime L s of None \<Rightarrow> Inl ValueError
                   | Some t \<Rightarrow> Inr (Some (strftime L t))))"

definition makedt :: "pylib \<Rightarrow> string \<Rightarrow> py_error + int" where
  "makedt L intime = (case strptime L intime of None \<Rightarrow> Inl ValueError | Some t \<Rightarrow> Inr t)"

text \<open>
  \<open>timeDiff\<close>: \<open>None\<close> when an endpoint is \<open>None\<close>, else the \<open>timedelta\<close>
  \<open>makedt(end) - makedt(start)\<close>, in microseconds.
\<close>

definition timeDiff :: "pylib \<Rightarrow> string option \<Rightarrow> string option \<Rightarrow> py_error + int option" where
  "timeDiff L start end' =
     (case (start, end') of
        (Some s, Some e) \<Rightarrow>
          ebind (makedt L e) (\<lambda>te. ebind (makedt L s) (\<lambda>ts. Inr (Some (te - ts))))
      | _ \<Rightarrow> Inr None)"

section \<open>Status vocabulary and presets\<close>

text \<open>\<open>self.statList\<close> of \<open>pmon.__init__\<close> in wstat.py and in wstat2.py.\<close>

definition statList_wstat :: "string list" where
  "statList_wstat = [''pending'', ''launched'', ''joining'', ''running'', ''unsched'',
     ''unknown'', ''exec_done'', ''memo_done'', ''failed'', ''dep_fail'', ''fail_retryable'']"

definition statList_wstat2 :: "string list" where
  "statList_wstat2 = [''pending'', ''launched'', ''running'', ''joining'', ''running_ended'',
     ''unsched'', ''unknown'', ''exec_done'', ''memo_done'', ''failed'', ''dep_fail'',
     ''fail_retryable'']"

text \<open>
  \<open>self.statTemplate\<close>: the loop \<open>for state in self.statList: self.statTemplate[state] = 0\<close>.
\<close>

definition build_statTemplate :: "string list \<Rightarrow> (string \<times> nat) list" where
  "build_statTemplate sl = fold (\<lambda>state d. AList.update state 0 d) sl []"

text \<open>\<open>self.statPresets\<close> of wstat.py and of wstat2.py.\<close>

definition statPresets_wstat :: "(string \<times> string list) list" where
  "statPresets_wstat =
     [(''notdone'', [''pending'', ''launched'', ''running'']),
      (''runz'', [''running'', ''exec_done'', ''memo_done'', ''failed'', ''dep_fail'',
                  ''fail_retryable'']),
      (''dead'', [''exec_done'', ''memo_done'', ''failed'', ''dep_fail'', ''fail_retryable'']),
      (''oddball'', [''unsched'', ''unknown''])]"

definition statPresets_wstat2 :: "(string \<times> string list) list" where
  "statPresets_wstat2 =
     [(''notdone'', [''pending'', ''launched'', ''running'']),
      (''runz'', [''running'', ''joining'', ''running_ended'', ''exec_done'', ''memo_done'',
                  ''failed'', ''dep_fail'', ''fail_retryable'']),
      (''dead'', [''exec_done'', ''memo_done'', ''failed'', ''dep_fail'', ''fail_retryable'']),
      (''oddball'', [''unsched'', ''unknown''])]"

text \<open>The state set a preset name stands for (empty when the name is no preset).\<close>

definition preset_states :: "(string \<times> string list) list \<Rightarrow> string \<Rightarrow> string set" where
  "preset_states presets name = (case map_of presets name of None \<Rightarrow> {} | Some l \<Rightarrow> set l)"

section \<open>The run index\<close>

text \<open>
  A row of the run table, as the constructor fetches it (ordered by \<open>time_began\<close>
  ascending, so the list order is the start-time order). Only the columns the modelled
  code reads are kept. \<open>runnum\<close> exists in wstat2.py's result set only (it comes from
  the view \<open>runview\<close>); wstat.py derives the number from \<open>rundir\<close>. wstat2.py reads
  the two times as \<open>began\<close> and \<open>completed\<close>.
\<close>

record wrow =
  run_id :: string
  runnum :: int
  rundir :: string
  time_began :: "string option"
  time_completed :: "string option"

text \<open>The instance variables that \<open>class pmon\<close> has in both programs.\<close>

record pmon_base =
  statList :: "string list"
  statTemplate :: "(string \<times> nat) list"
  statPresets :: "(string \<times> string list) list"
  wrows :: "wrow list"
  runnum2id :: "(int \<times> string) list"
  numRuns :: nat
  runmin :: int
  runmax :: int
  taskLimit :: int
  nodeUsage :: "(string \<times> nat) list"

text \<open>
  The three statements both loaders run for a row once its number \<open>k\<close> is known:
  \<open>self.runnum2id[k] = runID\<close>, then the two updates of \<open>runmax\<close> and \<open>runmin\<close>.
\<close>

definition index_run :: "int \<Rightarrow> string \<Rightarrow> 'a pmon_base_scheme \<Rightarrow> 'a pmon_base_scheme" where
  "index_run k runID m =
     (let m1 = m\<lparr>runnum2id := AList.update k runID (runnum2id m)\<rparr>;
          m2 = (if k > runmax m1 then m1\<lparr>runmax := k\<rparr> else m1)
      in if k < runmin m2 then m2\<lparr>runmin := k\<rparr> else m2)"

text \<open>
  \<open>selectRunID\<close> (the same text in both programs). The lookup
  \<open>self.runnum2id[runnum]\<close> is evaluated in every iteration, so a missing key raises
  KeyError at the first row, and \<open>assert False\<close> is reached when no row matches.
\<close>

fun selectRunID_loop :: "(int \<times> string) list \<Rightarrow> int \<Rightarrow> wrow list \<Rightarrow> nat \<Rightarrow> py_error + int" where
  "selectRunID_loop r2i n [] rdx = Inl AssertionError"
| "selectRunID_loop r2i n (w # ws) rdx =
     ebind (dict_get r2i n) (\<lambda>target.
       if run_id w = target then Inr (int rdx) else selectRunID_loop r2i n ws (Suc rdx))"

definition selectRunID :: "'a pmon_base_scheme \<Rightarrow> int option \<Rightarrow> py_error + int" where
  "selectRunID m req =
     (case req of None \<Rightarrow> Inr (- 1)
      | Some n \<Rightarrow> selectRunID_loop (runnum2id m) n (wrows m) 0)"

text \<open>
  The two statements with which \<open>printWorkflowSummary\<close> and \<open>getTaskData\<close> pick the
  row of the requested run: \<open>rowindex = self.selectRunID(runnum)\<close>,
  \<open>row = self.wrows[rowindex]\<close>.
\<close>

definition selectRow :: "'a pmon_base_scheme \<Rightarrow> int option \<Rightarrow> py_error + wrow" where
  "selectRow m req = ebind (selectRunID m req) (\<lambda>rowindex. py_index (wrows m) rowindex)"

text \<open>
  The main program's check of the run number ("Check validity of run number"), the same
  in both programs: it prints the out-of-range message and calls \<open>sys.exit(1)\<close>.
\<close>

definition check_runnum :: "'a pmon_base_scheme \<Rightarrow> int option \<Rightarrow> py_error + unit" where
  "check_runnum m req =
     (case req of None \<Rightarrow> Inr ()
      | Some n \<Rightarrow> if n > runmax m \<or> n < runmin m then Inl (SystemExit 1) else Inr ())"

subsection \<open>wstat.py: loading the run table\<close>

text \<open>
  A row of \<open>self.pTasks\<close>, with the column names of \<open>self.pTitles\<close>. \<open>runTime\<close> is a
  \<open>timedelta\<close> in microseconds or \<open>None\<close>.
\<close>

record ptask =
  task_id :: int
  task_name :: string
  run_num :: string
  status :: string
  hostname :: "string option"
  try_id :: int
  fails :: int
  submitTime :: "string option"
  startTime :: "string option"
  endTime :: "string option"
  runTime :: "int option"
  stdout :: string

record pmon = pmon_base +
  runid2num :: "(string \<times> string) list"
  pTasks :: "ptask list"
  pTasksFilled :: bool

text \<open>
  \<open>readWorkflowTable\<close>: the run number of a row is the last component of its
  \<open>rundir\<close> ("runNum is defined by the runinfo/NNN directory"), converted with \<open>int\<close>.
\<close>

fun readWorkflowTable_loop :: "pylib \<Rightarrow> pmon \<Rightarrow> wrow list \<Rightarrow> py_error + pmon" where
  "readWorkflowTable_loop L m [] = Inr m"
| "readWorkflowTable_loop L m (row # rows) =
     (let runID = run_id row;
          runNum = basename (rundir row);
          m1 = m\<lparr>runid2num := AList.update runID runNum (runid2num m)\<rparr>
      in ebind (to_int L runNum) (\<lambda>k. readWorkflowTable_loop L (index_run k runID m1) rows))"

definition readWorkflowTable :: "pylib \<Rightarrow> pmon \<Rightarrow> wrow list \<Rightarrow> py_error + pmon" where
  "readWorkflowTable L m workflow =
     ebind (readWorkflowTable_loop L (m\<lparr>wrows := workflow, runid2num := [], runnum2id := []\<rparr>)
              workflow)
       (\<lambda>m'. Inr (m'\<lparr>numRuns := length workflow\<rparr>))"

text \<open>\<open>pmon.__init__\<close> of wstat.py; \<open>workflow\<close> is the content of the run table.\<close>

definition pmon_init :: "pylib \<Rightarrow> wrow list \<Rightarrow> py_error + pmon" where
  "pmon_init L workflow =
     readWorkflowTable L
       \<lparr>statList = statList_wstat, statTemplate = build_statTemplate statList_wstat,
        statPresets = statPresets_wstat, wrows = [], runnum2id = [], numRuns = 0,
        runmin = 999999999, runmax = - 1, taskLimit = 0, nodeUsage = [],
        runid2num = [], pTasks = [], pTasksFilled = False\<rparr>
       workflow"

text \<open>
  \<open>printWorkflowSummary\<close> of wstat.py. The result holds what the printed table is made
  of: the run's id and number, whether it is marked as the most current run, the two
  times (\<open>*pending*\<close> when absent) and the duration. The other columns are printed as
  they are.
\<close>

record wsummary =
  sum_run_id :: string
  sum_runnum :: int
  sum_current :: bool
  sum_start :: string
  sum_end :: string

record wsummary_t = wsummary +
  sum_duration :: "int option"

definition pending :: "string option \<Rightarrow> string" where
  "pending t = (case t of None \<Rightarrow> ''*pending*'' | Some s \<Rightarrow> s)"

definition printWorkflowSummary :: "pylib \<Rightarrow> pmon \<Rightarrow> int option \<Rightarrow> py_error + wsummary_t" where
  "printWorkflowSummary L m req =
     ebind (selectRunID m req) (\<lambda>rowindex.
     ebind (py_index (wrows m) rowindex) (\<lambda>row.
     ebind (to_int L (basename (rundir row))) (\<lambda>irunNum.
     ebind (stripms L (time_began row)) (\<lambda>runStart.
     ebind (stripms L (time_completed row)) (\<lambda>runEnd.
     ebind (timeDiff L (time_began row) (time_completed row)) (\<lambda>duration.
       Inr \<lparr>sum_run_id = run_id row, sum_runnum = irunNum,
            sum_current = (irunNum = runmax m),
            sum_start = pending runStart, sum_end = pending runEnd,
            sum_duration = duration\<rparr>))))))"

subsection \<open>wstat2.py: loading the run table\<close>

text \<open>
  A row of the view \<open>summary\<close> (\<open>self.trows\<close>); of the columns \<open>self.tSumCols\<close> the
  ones that the filters and the status matrix read.
\<close>

record srow =
  s_runnum :: int
  s_tasknum :: int
  s_task_id :: int
  s_function :: string
  s_status :: string

record pmon2 = pmon_base +
  runid2num2 :: "(string \<times> int) list"
  sumFlag :: bool
  trows :: "srow list"

text \<open>\<open>loadWorkflowTable\<close>: the run number of a row is its column \<open>runnum\<close>.\<close>

fun loadWorkflowTable_loop :: "pmon2 \<Rightarrow> wrow list \<Rightarrow> pmon2" where
  "loadWorkflowTable_loop m [] = m"
| "loadWorkflowTable_loop m (row # rows) =
     (let runID = run_id row;
          m1 = m\<lparr>runid2num2 := AList.update runID (runnum row) (runid2num2 m)\<rparr>
      in loadWorkflowTable_loop (index_run (runnum row) runID m1) rows)"

definition loadWorkflowTable :: "pmon2 \<Rightarrow> wrow list \<Rightarrow> pmon2" where
  "loadWorkflowTable m workflow =
     (loadWorkflowTable_loop (m\<lparr>wrows := workflow, runid2num2 := [], runnum2id := []\<rparr>)
        workflow)\<lparr>numRuns := length workflow\<rparr>"

text \<open>
  \<open>pmon.__init__\<close> of wstat2.py, after the views have been checked; \<open>workflow\<close> is
  the result of the join of the run table with \<open>runview\<close>.
\<close>

definition pmon2_init :: "wrow list \<Rightarrow> pmon2" where
  "pmon2_init workflow =
     loadWorkflowTable
       \<lparr>statList = statList_wstat2, statTemplate = build_statTemplate statList_wstat2,
        statPresets = statPresets_wstat2, wrows = [], runnum2id = [], numRuns = 0,
        runmin = 999999999, runmax = - 1, taskLimit = 0, nodeUsage = [],
        runid2num2 = [], sumFlag = False, trows = []\<rparr>
       workflow"

definition printWorkflowSummary2 :: "pmon2 \<Rightarrow> int option \<Rightarrow> py_error + wsummary" where
  "printWorkflowSummary2 m req =
     ebind (selectRunID m req) (\<lambda>rowindex.
     ebind (py_index (wrows m) rowindex) (\<lambda>row.
       Inr \<lparr>sum_run_id = run_id row, sum_runnum = runnum row,
            sum_current = (runnum row = runmax m),
            sum_start = pending (time_began row), sum_end = pending (time_completed row)\<rparr>))"

section \<open>wstat.py: task data\<close>

text \<open>
  A row of the task query of \<open>getTaskData\<close> (the join of \<open>task t\<close>, \<open>try y\<close> and
  \<open>status s\<close>), with the columns the code reads.
\<close>

record trow =
  t_run_id :: string
  t_task_id :: int
  t_task_fail_count :: int
  t_task_func_name :: string
  t_task_stdout :: "string option"
  s_timestamp :: string
  s_task_status_name :: string
  y_hostname :: "string option"
  y_try_id :: int
  y_task_try_time_launched :: "string option"
  y_task_try_time_running :: "string option"
  y_task_try_time_returned :: "string option"

text \<open>
  The status filter of \<open>getTaskData\<close>. A preset name is looked up in
  \<open>self.statPresets\<close>; any other value is tested with \<open>taskStatus in
  row['task_status_name']\<close>, which on two strings is the substring test.
\<close>

fun preset_loop :: "(string \<times> string list) list \<Rightarrow> string \<Rightarrow> string \<Rightarrow> bool" where
  "preset_loop [] taskStatus rowStatus = False"
| "preset_loop ((prekey, states) # presets) taskStatus rowStatus =
     (if taskStatus = prekey \<and> rowStatus \<in> set states then True
      else preset_loop presets taskStatus rowStatus)"

definition keepRow :: "(string \<times> string list) list \<Rightarrow> string option \<Rightarrow> string \<Rightarrow> bool" where
  "keepRow presets taskStatus rowStatus =
     (case taskStatus of None \<Rightarrow> True
      | Some f \<Rightarrow> if f \<in> set (map fst presets) then preset_loop presets f rowStatus
                  else sublist f rowStatus)"

text \<open>"Fill Task data list": the list \<open>pTask\<close> built for a kept row.\<close>

definition fill_pTask :: "pylib \<Rightarrow> pmon \<Rightarrow> trow \<Rightarrow> py_error + ptask" where
  "fill_pTask L m row =
     (let stdDir = (case t_task_stdout row of None \<Rightarrow> ''None'' | Some p \<Rightarrow> splitext L p)
      in ebind (dict_get (runid2num m) (t_run_id row)) (\<lambda>rn.
         ebind (stripms L (y_task_try_time_launched row)) (\<lambda>launched.
         ebind (stripms L (y_task_try_time_running row)) (\<lambda>running.
         ebind (stripms L (y_task_try_time_returned row)) (\<lambda>returned.
         ebind (timeDiff L (y_task_try_time_running row) (y_task_try_time_returned row))
           (\<lambda>rt.
             Inr \<lparr>task_id = t_task_id row, task_name = t_task_func_name row, run_num = rn,
                  status = s_task_status_name row, hostname = y_hostname row,
                  try_id = y_try_id row, fails = t_task_fail_count row,
                  submitTime = launched, startTime = running, endTime = returned,
                  runTime = rt, stdout = stdDir\<rparr>))))))"

text \<open>"Fill nodeUsage dict": the key of a host, and the count of one more running task.\<close>

definition host_key :: "string option \<Rightarrow> string" where
  "host_key h = (case h of None \<Rightarrow> ''unknown'' | Some hn \<Rightarrow> hn)"

definition node_incr :: "(string \<times> nat) list \<Rightarrow> string \<Rightarrow> (string \<times> nat) list" where
  "node_incr nu hn =
     (case map_of nu hn of None \<Rightarrow> AList.update hn 1 nu
      | Some c \<Rightarrow> AList.update hn (c + 1) nu)"

text \<open>The counters local to one call of \<open>getTaskData\<close>.\<close>

record tcount =
  rCount :: nat
  grCount :: nat
  nRunning :: nat

text \<open>
  The loop "Look at every task": \<open>continue\<close> for a row the status filter rejects,
  \<open>break\<close> once \<open>taskLimit\<close> kept rows have been stored.
\<close>

fun getTaskData_loop ::
  "pylib \<Rightarrow> string option \<Rightarrow> pmon \<Rightarrow> tcount \<Rightarrow> trow list \<Rightarrow> py_error + (pmon \<times> tcount)" where
  "getTaskData_loop L taskStatus m c [] = Inr (m, c)"
| "getTaskData_loop L taskStatus m c (row # rows) =
     (let c1 = c\<lparr>rCount := rCount c + 1\<rparr>
      in if \<not> keepRow (statPresets m) taskStatus (s_task_status_name row)
         then getTaskData_loop L taskStatus m c1 rows
         else
           (let c2 = c1\<lparr>grCount := grCount c1 + 1\<rparr>
            in ebind (fill_pTask L m row) (\<lambda>pTask.
                 let running = (s_task_status_name row = ''running'');
                     c3 = (if running then c2\<lparr>nRunning := nRunning c2 + 1\<rparr> else c2);
                     m1 = (if running
                           then m\<lparr>nodeUsage := node_incr (nodeUsage m) (host_key (y_hostname row))\<rparr>
                           else m);
                     m2 = m1\<lparr>pTasks := pTasks m1 @ [pTask]\<rparr>
                 in if taskLimit m2 > 0 \<and> int (grCount c3) \<ge> taskLimit m2 then Inr (m2, c3)
                    else getTaskData_loop L taskStatus m2 c3 rows)))"

text \<open>
  \<open>getTaskData\<close>. \<open>tRowz\<close> is the result set \<open>stdQuery\<close> returns for the task
  query; \<open>repType\<close>, \<open>taskID\<close> and \<open>taskName\<close> go into the text of that query only
  and \<open>printSummary\<close> into printing only. The function returns nothing; the model
  returns the new instance state and the local counters, which it prints.
\<close>

definition getTaskData ::
  "pylib \<Rightarrow> trow list \<Rightarrow> pmon \<Rightarrow> int option \<Rightarrow> string option \<Rightarrow> py_error + (pmon \<times> tcount)" where
  "getTaskData L tRowz m req taskStatus =
     ebind (selectRunID m req) (\<lambda>rowindex.
     ebind (py_index (wrows m) rowindex) (\<lambda>wrow.
     ebind (case req of None \<Rightarrow> ebind (dict_get (runid2num m) (run_id wrow)) (to_int L)
            | Some n \<Rightarrow> Inr n) (\<lambda>runnum'.
     ebind (getTaskData_loop L taskStatus m \<lparr>rCount = 0, grCount = 0, nRunning = 0\<rparr> tRowz)
       (\<lambda>(m', c). Inr (m'\<lparr>pTasksFilled := True\<rparr>, c)))))"

section \<open>The status matrix\<close>

text \<open>
  The tally loop of \<open>printStatusMatrix\<close> (wstat.py) and of \<open>taskStatusMatrix\<close>
  (wstat2.py): the same statements in both. A task is the pair of its type name and its
  status; \<open>tmpl\<close> is \<open>self.statTemplate\<close>.
\<close>

type_synonym tally = "(string \<times> nat) list"
type_synonym matrix = "(string \<times> tally) list"

definition tally_step :: "tally \<Rightarrow> matrix \<times> tally \<Rightarrow> string \<times> string \<Rightarrow> py_error + (matrix \<times> tally)" where
  "tally_step tmpl st task =
     (case (st, task) of ((taskStats, statTotals), (tName, tStat)) \<Rightarrow>
        (let taskStats1 = (if tName \<notin> set (map fst taskStats)
                           then AList.update tName (AList.update ''TOTAL'' 0 tmpl) taskStats
                           else taskStats)
         in ebind (dict_get taskStats1 tName) (\<lambda>row.
            ebind (dict_incr row tStat) (\<lambda>row1.
            ebind (dict_incr row1 ''TOTAL'') (\<lambda>row2.
            ebind (dict_incr statTotals tStat) (\<lambda>tot1.
            ebind (dict_incr tot1 ''TOTAL'') (\<lambda>tot2.
              Inr (AList.update tName row2 taskStats1, tot2))))))))"

fun tally_loop :: "tally \<Rightarrow> matrix \<times> tally \<Rightarrow> (string \<times> string) list \<Rightarrow> py_error + (matrix \<times> tally)" where
  "tally_loop tmpl st [] = Inr st"
| "tally_loop tmpl st (task # tasks) =
     ebind (tally_step tmpl st task) (\<lambda>st'. tally_loop tmpl st' tasks)"

text \<open>
  From \<open>taskStats = {}\<close> to \<open>taskStats['TOTAL'] = dict(statTotals)\<close>: the matrix
  that is then printed.
\<close>

definition status_matrix :: "tally \<Rightarrow> (string \<times> string) list \<Rightarrow> py_error + matrix" where
  "status_matrix tmpl tasks =
     ebind (tally_loop tmpl ([], AList.update ''TOTAL'' 0 tmpl) tasks)
       (\<lambda>(taskStats, statTotals). Inr (AList.update ''TOTAL'' statTotals taskStats))"

text \<open>
  \<open>printStatusMatrix\<close> of wstat.py: fills \<open>pTasks\<close> when that has not been done, prints
  "Nothing to do" for an empty list (the result \<open>None\<close>) and the matrix otherwise.
\<close>

definition printStatusMatrix ::
  "pylib \<Rightarrow> trow list \<Rightarrow> pmon \<Rightarrow> int option \<Rightarrow> py_error + (pmon \<times> matrix option)" where
  "printStatusMatrix L tRowz m req =
     ebind (if \<not> pTasksFilled m
            then ebind (getTaskData L tRowz m req None) (\<lambda>(m', c). Inr m')
            else Inr m) (\<lambda>m1.
       if length (pTasks m1) < 1 then Inr (m1, None)
       else ebind (status_matrix (statTemplate m1)
                     (map (\<lambda>task. (task_name task, status task)) (pTasks m1)))
              (\<lambda>M. Inr (m1, Some M)))"

text \<open>
  \<open>taskStatusMatrix\<close> of wstat2.py; \<open>summary\<close> is the content of the view of that
  name, which \<open>loadTaskData()\<close> reads when no task data has been loaded yet.
\<close>

definition taskStatusMatrix :: "srow list \<Rightarrow> pmon2 \<Rightarrow> py_error + (pmon2 \<times> matrix option)" where
  "taskStatusMatrix summary m =
     (let m1 = (if \<not> sumFlag m then m\<lparr>trows := summary, sumFlag := True\<rparr> else m)
      in if length (trows m1) < 1 then Inr (m1, None)
         else ebind (status_matrix (statTemplate m1)
                       (map (\<lambda>task. (s_function task, s_status task)) (trows m1)))
                (\<lambda>M. Inr (m1, Some M)))"

section \<open>wstat.py: run-time tally of \<open>plotStats\<close>\<close>

text \<open>
  What the loop "Tally execution runtimes for done tasks" prints: the message about one
  completed task without a runtime, and the message "Too many tasks with no runtime".
\<close>

datatype plot_msg = NoRuntime ptask | TooMany

text \<open>
  The variables of the loop. \<open>histData\<close> keeps each runtime as the \<open>timedelta\<close> it is
  taken from, in microseconds (the code stores \<open>total_seconds()/60\<close>, a float).
\<close>

record ptally =
  nTasks :: nat
  nTaskTypes :: nat
  nDone :: nat
  nErrors :: nat
  histData :: "(string \<times> int list) list"
  printed :: "plot_msg list"

definition plotStats_step :: "ptally \<Rightarrow> ptask \<Rightarrow> ptally" where
  "plotStats_step st task =
     (let st1 = st\<lparr>nTasks := nTasks st + 1\<rparr>
      in if sublist ''done'' (status task)
         then (let st2 = st1\<lparr>nDone := nDone st1 + 1\<rparr>
               in case runTime task of
                    None \<Rightarrow>
                      (let st3 = st2\<lparr>nErrors := nErrors st2 + 1\<rparr>
                       in if nErrors st3 < 10
                          then st3\<lparr>printed := printed st3 @ [NoRuntime task]\<rparr>
                          else if nErrors st3 = 10
                          then st3\<lparr>printed := printed st3 @ [TooMany]\<rparr>
                          else st3)
                  | Some rt \<Rightarrow>
                      (case map_of (histData st2) (task_name task) of
                         None \<Rightarrow> st2\<lparr>nTaskTypes := nTaskTypes st2 + 1,
                                     histData := AList.update (task_name task) [rt] (histData st2)\<rparr>
                       | Some l \<Rightarrow> st2\<lparr>histData :=
                                       AList.update (task_name task) (l @ [rt]) (histData st2)\<rparr>))
         else st1)"

fun plotStats_loop :: "ptally \<Rightarrow> ptask list \<Rightarrow> ptally" where
  "plotStats_loop st [] = st"
| "plotStats_loop st (task # tasks) = plotStats_loop (plotStats_step st task) tasks"

text \<open>
  \<open>plotStats\<close> up to the line that prints the totals; the histograms drawn from
  \<open>histData\<close> afterwards are the plotting library's. \<open>None\<close> is "Nothing to plot".
\<close>

definition plotStats ::
  "pylib \<Rightarrow> trow list \<Rightarrow> pmon \<Rightarrow> int option \<Rightarrow> py_error + (pmon \<times> ptally option)" where
  "plotStats L tRowz m req =
     ebind (if \<not> pTasksFilled m
            then ebind (getTaskData L tRowz m req None) (\<lambda>(m', c). Inr m')
            else Inr m) (\<lambda>m1.
       if length (pTasks m1) < 1 then Inr (m1, None)
       else Inr (m1, Some (plotStats_loop
                             \<lparr>nTasks = 0, nTaskTypes = 0, nDone = 0, nErrors = 0,
                              histData = [], printed = []\<rparr> (pTasks m1))))"

section \<open>The reports and the main programs\<close>

subsection \<open>wstat.py\<close>

definition shortSummary ::
  "pylib \<Rightarrow> trow list \<Rightarrow> pmon \<Rightarrow> int option \<Rightarrow> py_error + (wsummary_t \<times> pmon \<times> matrix option)" where
  "shortSummary L tRowz m req =
     ebind (printWorkflowSummary L m req) (\<lambda>s.
     ebind (printStatusMatrix L tRowz m req) (\<lambda>(m', M). Inr (s, m', M)))"

text \<open>
  \<open>taskSummary\<close>: it calls \<open>getTaskData\<close> without the run number, so that call sees
  \<open>runnum=None\<close>.
\<close>

definition taskSummary ::
  "pylib \<Rightarrow> trow list \<Rightarrow> pmon \<Rightarrow> int option \<Rightarrow> string option
     \<Rightarrow> py_error + (wsummary_t \<times> pmon \<times> matrix option)" where
  "taskSummary L tRowz m req taskStatus =
     ebind (printWorkflowSummary L m req) (\<lambda>s.
     ebind (getTaskData L tRowz m None taskStatus) (\<lambda>(m1, c).
     ebind (printStatusMatrix L tRowz m1 req) (\<lambda>(m', M). Inr (s, m', M))))"

text \<open>
  The main program for the report types \<open>shortSummary\<close> (the default), \<open>taskSummary\<close>
  and \<open>taskHistory\<close>; the last two differ in the text of the task query only.
  \<open>workflow\<close> is the run table and \<open>tRowz\<close> the result of the task query.
\<close>

datatype report = ShortSummary | TaskSummary | TaskHistory

definition wstat_main ::
  "pylib \<Rightarrow> wrow list \<Rightarrow> trow list \<Rightarrow> report \<Rightarrow> int option \<Rightarrow> string option \<Rightarrow> int
     \<Rightarrow> py_error + (wsummary_t \<times> pmon \<times> matrix option)" where
  "wstat_main L workflow tRowz reportType req taskStatus limit =
     ebind (pmon_init L workflow) (\<lambda>m.
     ebind (check_runnum m req) (\<lambda>u.
       (let m1 = (if limit > 0 then m\<lparr>taskLimit := limit\<rparr> else m)
        in case reportType of
             ShortSummary \<Rightarrow> shortSummary L tRowz m1 req
           | TaskSummary \<Rightarrow> taskSummary L tRowz m1 req taskStatus
           | TaskHistory \<Rightarrow> taskSummary L tRowz m1 req taskStatus)))"

subsection \<open>wstat2.py\<close>

text \<open>
  The SQL text that the code composes is kept as text. \<open>dquote\<close> is the double quote
  character, \<open>show_int\<close> the decimal text an f-string gives an integer, and
  \<open>join_and\<close> is \<open>' and '.join(whereList)\<close>.
\<close>

definition dquote :: char where
  "dquote = CHR 0x22"

function show_nat :: "nat \<Rightarrow> string" where
  "show_nat n =
     (if n < 10 then [char_of (48 + n)]
      else show_nat (n div 10) @ [char_of (48 + n mod 10)])"
  by pat_completeness auto
termination
  by (relation "measure id") auto

definition show_int :: "int \<Rightarrow> string" where
  "show_int i = (if i < 0 then CHR ''-'' # show_nat (nat (- i)) else show_nat (nat i))"

fun join_and :: "string list \<Rightarrow> string" where
  "join_and [] = []"
| "join_and [x] = x"
| "join_and (x # y # ys) = x @ '' and '' @ join_and (y # ys)"

definition opt_text :: "'v option \<Rightarrow> ('v \<Rightarrow> string) \<Rightarrow> string list" where
  "opt_text x f = (case x of None \<Rightarrow> [] | Some v \<Rightarrow> [f v])"

text \<open>
  \<open>taskSum\<close>, "Prepare 'where' clause for sql": \<open>whereList\<close> gets one comparison
  for each supplied filter, in this order, and \<open>where\<close> is \<open>'where '\<close> followed by the
  comparisons joined with \<open>' and '\<close>, or the empty text without a filter. The run number
  is an integer; the task number, the task id, the task-type name and the status are the
  texts given on the command line, put into the comparison as they are, the last two
  between double quotes.
\<close>

definition taskSum_whereList ::
  "int option \<Rightarrow> string option \<Rightarrow> string option \<Rightarrow> string option \<Rightarrow> string option
     \<Rightarrow> string list" where
  "taskSum_whereList req tasknum taskid taskname status' =
     opt_text req (\<lambda>v. '' runnum='' @ show_int v @ '' '') @
     opt_text tasknum (\<lambda>v. '' tasknum='' @ v @ '' '') @
     opt_text taskid (\<lambda>v. '' task_id='' @ v @ '' '') @
     opt_text taskname (\<lambda>v. '' function='' @ [dquote] @ v @ [dquote] @ '' '') @
     opt_text status' (\<lambda>v. '' status='' @ [dquote] @ v @ [dquote] @ '' '')"

definition taskSum_where ::
  "int option \<Rightarrow> string option \<Rightarrow> string option \<Rightarrow> string option \<Rightarrow> string option
     \<Rightarrow> string" where
  "taskSum_where req tasknum taskid taskname status' =
     (let whereList = taskSum_whereList req tasknum taskid taskname status'
      in if length whereList > 0 then ''where '' @ join_and whereList else [])"

text \<open>
  \<open>loadTaskData\<close>: \<open>select ... from summary\<close> followed by the \<open>where\<close> text.
  Which rows of \<open>summary\<close> a \<open>where\<close> text selects is decided by SQLite, not by the
  program: \<open>W\<close> is SQLite's reading of the text, a parameter of the model. Without a
  \<open>where\<close> text the query gives every row.
\<close>

definition loadTaskData ::
  "(string \<Rightarrow> srow \<Rightarrow> bool) \<Rightarrow> srow list \<Rightarrow> string \<Rightarrow> pmon2 \<Rightarrow> pmon2" where
  "loadTaskData W summary where' m =
     m\<lparr>trows := (if where' = [] then summary else filter (W where') summary),
       sumFlag := True\<rparr>"

definition taskSum ::
  "(string \<Rightarrow> srow \<Rightarrow> bool) \<Rightarrow> srow list \<Rightarrow> pmon2 \<Rightarrow> int option \<Rightarrow> string option
     \<Rightarrow> string option \<Rightarrow> string option \<Rightarrow> string option \<Rightarrow> pmon2" where
  "taskSum W summary m req tasknum taskid taskname status' =
     loadTaskData W summary (taskSum_where req tasknum taskid taskname status') m"

definition shortSummary2 ::
  "srow list \<Rightarrow> pmon2 \<Rightarrow> int option \<Rightarrow> py_error + (wsummary \<times> pmon2 \<times> matrix option)" where
  "shortSummary2 summary m req =
     ebind (printWorkflowSummary2 m req) (\<lambda>s.
     ebind (taskStatusMatrix summary m) (\<lambda>(m', M). Inr (s, m', M)))"

definition taskSummary2 ::
  "(string \<Rightarrow> srow \<Rightarrow> bool) \<Rightarrow> srow list \<Rightarrow> pmon2 \<Rightarrow> int option \<Rightarrow> string option
     \<Rightarrow> string option \<Rightarrow> string option \<Rightarrow> string option
     \<Rightarrow> py_error + (wsummary \<times> pmon2 \<times> matrix option)" where
  "taskSummary2 W summary m req tasknum taskid taskname status' =
     ebind (printWorkflowSummary2 m req) (\<lambda>s.
     ebind (taskStatusMatrix summary (taskSum W summary m req tasknum taskid taskname status'))
       (\<lambda>(m', M). Inr (s, m', M)))"

text \<open>The main program of wstat2.py for the default report type \<open>shortSummary\<close>.\<close>

definition wstat2_main ::
  "wrow list \<Rightarrow> srow list \<Rightarrow> int option \<Rightarrow> py_error + (wsummary \<times> pmon2 \<times> matrix option)" where
  "wstat2_main workflow summary req =
     (let m = pmon2_init workflow
      in ebind (check_runnum m req) (\<lambda>u. shortSummary2 summary m req))"

section \<open>The task queries\<close>

text \<open>
  A \<open>where\<close> clause as the list of the tests it joins with \<open>and\<close>, each test
  being present when its filter is supplied; the clause holds for a row when all of its
  tests do.
\<close>

definition opt_clause :: "'v option \<Rightarrow> ('v \<Rightarrow> 'r \<Rightarrow> bool) \<Rightarrow> ('r \<Rightarrow> bool) list" where
  "opt_clause x test = (case x of None \<Rightarrow> [] | Some v \<Rightarrow> [test v])"

definition where_holds :: "('r \<Rightarrow> bool) list \<Rightarrow> 'r \<Rightarrow> bool" where
  "where_holds whereList r = list_all (\<lambda>clause. clause r) whereList"

text \<open>
  The \<open>where\<close> clause that \<open>getTaskData\<close> of wstat.py composes: in Summary mode a
  test of the task id and one of the task-type name, joined with \<open>and\<close>; in History mode
  the test of the task id alone.
\<close>

datatype repType = Summary | History

definition task_where :: "repType \<Rightarrow> int option \<Rightarrow> string option \<Rightarrow> (trow \<Rightarrow> bool) list" where
  "task_where rep taskID taskName =
     (case rep of
        Summary \<Rightarrow> opt_clause taskID (\<lambda>v r. t_task_id r = v) @
                   opt_clause taskName (\<lambda>v r. t_task_func_name r = v)
      | History \<Rightarrow> opt_clause taskID (\<lambda>v r. t_task_id r = v))"

text \<open>
  The History query of wstat.py on the rows of the join: the \<open>where\<close> clause, then
  \<open>order by t.task_id,s.timestamp asc\<close>. The time stamps are compared as the text they
  are stored as.
\<close>

definition history_query :: "int option \<Rightarrow> trow list \<Rightarrow> trow list" where
  "history_query taskID joined =
     sort_key (\<lambda>r. (t_task_id r, s_timestamp r))
       (filter (where_holds (task_where History taskID None)) joined)"

text \<open>
  A row of \<open>taskHistoryQuery\<close> of wstat2.py; \<open>h_timestamp\<close> is the stored time
  stamp \<open>s.timestamp\<close>, by which the query orders.
\<close>

record hrow =
  h_runnum :: int
  h_tasknum :: int
  h_task_id :: int
  h_status :: string
  h_timestamp :: string

text \<open>
  The \<open>where\<close> text of \<open>taskHistoryQuery\<close> after \<open>taskHis\<close> has put the task
  number in place of \<open>#tasknum#\<close> and \<open>morewhere\<close> in place of \<open>#morewhere#\<close>;
  \<open>whereList\<close> starts as \<open>[' ']\<close>.
\<close>

definition taskHis_where :: "string \<Rightarrow> int option \<Rightarrow> string option \<Rightarrow> string" where
  "taskHis_where tasknum req status' =
     ''where tv.tasknum='' @ tasknum @ '' '' @
     join_and (['' ''] @
               opt_text req (\<lambda>v. '' rv.runnum='' @ show_int v @ '' '') @
               opt_text status' (\<lambda>v. '' status='' @ [dquote] @ v @ [dquote] @ '' '')) @
     '' ''"

text \<open>
  The query on the rows of its join: the rows that the \<open>where\<close> text selects, which
  SQLite decides (\<open>W\<close>, as in \<open>loadTaskData\<close>), then \<open>order by s.timestamp asc\<close>.
\<close>

definition taskHis_query ::
  "(string \<Rightarrow> hrow \<Rightarrow> bool) \<Rightarrow> string \<Rightarrow> int option \<Rightarrow> string option \<Rightarrow> hrow list
     \<Rightarrow> hrow list" where
  "taskHis_query W tasknum req status' joined =
     sort_key h_timestamp (filter (W (taskHis_where tasknum req status')) joined)"

text \<open>
  \<open>taskHis\<close> of wstat2.py: without a task number it prints an error and returns
  (\<open>None\<close>); otherwise the rows of the query, in the order the query gives.
\<close>

definition taskHis ::
  "(string \<Rightarrow> hrow \<Rightarrow> bool) \<Rightarrow> hrow list \<Rightarrow> int option \<Rightarrow> string option \<Rightarrow> string option
     \<Rightarrow> hrow list option" where
  "taskHis W joined req tasknum status' =
     (case tasknum of None \<Rightarrow> None
      | Some t \<Rightarrow> Some (taskHis_query W t req status' joined))"

section \<open>Example data\<close>

text \<open>
  Three runs as Parsl records them: the first run of a directory works in
  \<open>runinfo/000\<close>, and \<open>runview\<close> numbers the runs from 1.
\<close>

definition run_a :: wrow where
  "run_a = \<lparr>run_id = ''a'', runnum = 1, rundir = ''/w/runinfo/000'',
            time_began = Some ''10'', time_completed = Some ''30''\<rparr>"

definition run_b :: wrow where
  "run_b = \<lparr>run_id = ''b'', runnum = 2, rundir = ''/w/runinfo/001'',
            time_began = Some ''40'', time_completed = Some ''70''\<rparr>"

definition run_c :: wrow where
  "run_c = \<lparr>run_id = ''c'', runnum = 3, rundir = ''/w/runinfo/002'',
            time_began = Some ''80'', time_completed = None\<rparr>"

text \<open>
  The instance that \<open>pmon.__init__\<close> of wstat.py builds for the run table with the one
  run \<open>run_a\<close>, and four rows of its task query: two running tasks, one of them
  without a host, and two finished tasks, one of them without the time it returned.
\<close>

definition pmon_a :: pmon where
  "pmon_a = \<lparr>statList = statList_wstat, statTemplate = build_statTemplate statList_wstat,
          statPresets = statPresets_wstat, wrows = [run_a], runnum2id = [(0, ''a'')],
          numRuns = 1, runmin = 0, runmax = 0, taskLimit = 0, nodeUsage = [],
          runid2num = [(''a'', ''000'')], pTasks = [], pTasksFilled = False\<rparr>"

definition task_0 :: trow where
  "task_0 = \<lparr>t_run_id = ''a'', t_task_id = 0, t_task_fail_count = 0, t_task_func_name = ''add'',
             t_task_stdout = None, s_timestamp = ''12'', s_task_status_name = ''running'',
             y_hostname = Some ''node07'', y_try_id = 0,
             y_task_try_time_launched = Some ''11'', y_task_try_time_running = Some ''12'',
             y_task_try_time_returned = None\<rparr>"

definition task_1 :: trow where
  "task_1 = \<lparr>t_run_id = ''a'', t_task_id = 1, t_task_fail_count = 0, t_task_func_name = ''add'',
             t_task_stdout = None, s_timestamp = ''13'', s_task_status_name = ''running'',
             y_hostname = None, y_try_id = 0,
             y_task_try_time_launched = Some ''11'', y_task_try_time_running = Some ''13'',
             y_task_try_time_returned = None\<rparr>"

definition task_2 :: trow where
  "task_2 = \<lparr>t_run_id = ''a'', t_task_id = 2, t_task_fail_count = 0, t_task_func_name = ''add'',
             t_task_stdout = None, s_timestamp = ''20'', s_task_status_name = ''exec_done'',
             y_hostname = Some ''node07'', y_try_id = 0,
             y_task_try_time_launched = Some ''11'', y_task_try_time_running = Some ''12'',
             y_task_try_time_returned = None\<rparr>"

definition task_3 :: trow where
  "task_3 = \<lparr>t_run_id = ''a'', t_task_id = 3, t_task_fail_count = 0, t_task_func_name = ''mul'',
             t_task_stdout = None, s_timestamp = ''25'', s_task_status_name = ''exec_done'',
             y_hostname = Some ''node08'', y_try_id = 0,
             y_task_try_time_launched = Some ''11'', y_task_try_time_running = Some ''12'',
             y_task_try_time_returned = Some ''25''\<rparr>"

text \<open>The rows of \<open>pTasks\<close> that \<open>getTaskData\<close> makes of these four rows.\<close>

definition ptask_0 :: ptask where
  "ptask_0 = \<lparr>task_id = 0, task_name = ''add'', run_num = ''000'', status = ''running'',
              hostname = Some ''node07'', try_id = 0, fails = 0, submitTime = Some [],
              startTime = Some [], endTime = None, runTime = None, stdout = ''None''\<rparr>"

definition ptask_1 :: ptask where
  "ptask_1 = \<lparr>task_id = 1, task_name = ''add'', run_num = ''000'', status = ''running'',
              hostname = None, try_id = 0, fails = 0, submitTime = Some [],
              startTime = Some [], endTime = None, runTime = None, stdout = ''None''\<rparr>"

definition ptask_2 :: ptask where
  "ptask_2 = \<lparr>task_id = 2, task_name = ''add'', run_num = ''000'', status = ''exec_done'',
              hostname = Some ''node07'', try_id = 0, fails = 0, submitTime = Some [],
              startTime = Some [], endTime = None, runTime = None, stdout = ''None''\<rparr>"

definition ptask_3 :: ptask where
  "ptask_3 = \<lparr>task_id = 3, task_name = ''mul'', run_num = ''000'', status = ''exec_done'',
              hostname = Some ''node08'', try_id = 0, fails = 0, submitTime = Some [],
              startTime = Some [], endTime = Some [], runTime = Some 13, stdout = ''None''\<rparr>"

text \<open>
  Task data for the status matrix: a task type named \<open>TOTAL\<close>, the matrix that
  wstat.py makes of it and of one task of type \<open>add\<close>, a task in the state
  \<open>running_ended\<close>, which wstat.py's state list does not have, and rows of
  \<open>summary\<close> for wstat2.py, the last one in a state that is in no state list.
\<close>

definition ptask_T :: ptask where
  "ptask_T = \<lparr>task_id = 4, task_name = ''TOTAL'', run_num = ''000'', status = ''exec_done'',
              hostname = Some ''node07'', try_id = 0, fails = 0, submitTime = Some [],
              startTime = Some [], endTime = Some [], runTime = Some 13, stdout = ''None''\<rparr>"

definition matrix_T :: matrix where
  "matrix_T =
     [(''TOTAL'',
       [(''pending'', 0), (''launched'', 0), (''joining'', 0), (''running'', 0),
        (''unsched'', 0), (''unknown'', 0), (''exec_done'', 2), (''memo_done'', 0),
        (''failed'', 0), (''dep_fail'', 0), (''fail_retryable'', 0), (''TOTAL'', 2)]),
      (''add'',
       [(''pending'', 0), (''launched'', 0), (''joining'', 0), (''running'', 0),
        (''unsched'', 0), (''unknown'', 0), (''exec_done'', 1), (''memo_done'', 0),
        (''failed'', 0), (''dep_fail'', 0), (''fail_retryable'', 0), (''TOTAL'', 1)])]"

definition ptask_e :: ptask where
  "ptask_e = \<lparr>task_id = 5, task_name = ''add'', run_num = ''000'', status = ''running_ended'',
              hostname = Some ''node07'', try_id = 0, fails = 0, submitTime = Some [],
              startTime = Some [], endTime = None, runTime = None, stdout = ''None''\<rparr>"

definition srow_0 :: srow where
  "srow_0 = \<lparr>s_runnum = 1, s_tasknum = 0, s_task_id = 0, s_function = ''add'',
             s_status = ''exec_done''\<rparr>"

definition srow_1 :: srow where
  "srow_1 = \<lparr>s_runnum = 1, s_tasknum = 1, s_task_id = 1, s_function = ''add'',
             s_status = ''failed''\<rparr>"

definition srow_h :: srow where
  "srow_h = \<lparr>s_runnum = 1, s_tasknum = 2, s_task_id = 2, s_function = ''add'',
             s_status = ''held''\<rparr>"

definition srow_2 :: srow where
  "srow_2 = \<lparr>s_runnum = 1, s_tasknum = 3, s_task_id = 3, s_function = ''add'',
             s_status = ''exec_done''\<rparr>"

text \<open>
  The matrix of three tasks of type \<open>add\<close>, two in the state \<open>exec_done\<close> and one
  in the state \<open>failed\<close>, in wstat2.py.
\<close>

definition matrix_add :: matrix where
  "matrix_add =
     [(''add'',
       [(''pending'', 0), (''launched'', 0), (''running'', 0), (''joining'', 0),
        (''running_ended'', 0), (''unsched'', 0), (''unknown'', 0), (''exec_done'', 2),
        (''memo_done'', 0), (''failed'', 1), (''dep_fail'', 0), (''fail_retryable'', 0),
        (''TOTAL'', 3)]),
      (''TOTAL'',
       [(''pending'', 0), (''launched'', 0), (''running'', 0), (''joining'', 0),
        (''running_ended'', 0), (''unsched'', 0), (''unknown'', 0), (''exec_done'', 2),
        (''memo_done'', 0), (''failed'', 1), (''dep_fail'', 0), (''fail_retryable'', 0),
        (''TOTAL'', 3)])]"

section \<open>Notions used in the proofs\<close>

text \<open>
  A task that \<open>plotStats\<close> counts as completed (its status contains \<open>done\<close>) and
  that has no runtime.
\<close>

definition no_runtime :: "ptask \<Rightarrow> bool" where
  "no_runtime task \<longleftrightarrow> sublist ''done'' (status task) \<and> runTime task = None"

text \<open>The variables of the tally loop of \<open>plotStats\<close> before the first task.\<close>

definition ptally_init :: ptally where
  "ptally_init = \<lparr>nTasks = 0, nTaskTypes = 0, nDone = 0, nErrors = 0, histData = [],
                   printed = []\<rparr>"

text \<open>
  What a loader has done to the index once it has gone through \<open>rows\<close>, the number
  of a row being \<open>num\<close>: \<open>m\<close> is the state before the loop and \<open>m'\<close> the state
  after it.
\<close>

definition indexed :: "(wrow \<Rightarrow> int) \<Rightarrow> wrow list \<Rightarrow> 'a pmon_base_scheme \<Rightarrow> 'a pmon_base_scheme \<Rightarrow> bool" where
  "indexed num rows m m' \<longleftrightarrow>
     wrows m' = wrows m \<and>
     runmax m' = Max (insert (runmax m) (num ` set rows)) \<and>
     runmin m' = Min (insert (runmin m) (num ` set rows)) \<and>
     map_of (runnum2id m') = map_of (runnum2id m) ++ map_of (rev (map (\<lambda>r. (num r, run_id r)) rows))"

text \<open>The count that \<open>nodeUsage\<close> shows for a host (0 when the host has no entry).\<close>

definition node_count :: "(string \<times> nat) list \<Rightarrow> string \<Rightarrow> nat" where
  "node_count nu h = (case map_of nu h of None \<Rightarrow> 0 | Some c \<Rightarrow> c)"

text \<open>
  Reading the printed matrix: the rows of the task types (all rows but \<open>TOTAL\<close>), the
  state cells of a row (all cells but \<open>TOTAL\<close>), one cell, the sum of the state cells
  of a row, and the row \<open>TOTAL\<close>.
\<close>

definition type_rows :: "matrix \<Rightarrow> matrix" where
  "type_rows M = filter (\<lambda>(name, row). name \<noteq> ''TOTAL'') M"

definition state_cells :: "tally \<Rightarrow> tally" where
  "state_cells row = filter (\<lambda>(state, n). state \<noteq> ''TOTAL'') row"

definition cell :: "tally \<Rightarrow> string \<Rightarrow> nat" where
  "cell row state = (case map_of row state of None \<Rightarrow> 0 | Some n \<Rightarrow> n)"

definition row_sum :: "tally \<Rightarrow> nat" where
  "row_sum row = sum_list (map snd (state_cells row))"

definition total_row :: "matrix \<Rightarrow> tally" where
  "total_row M = (case map_of M ''TOTAL'' of None \<Rightarrow> [] | Some row \<Rightarrow> row)"

text \<open>
  The totals of a matrix made from \<open>n\<close> tasks are right: the state cells of all task
  types add up to \<open>n\<close>; the cell \<open>TOTAL\<close> of the row \<open>TOTAL\<close> is \<open>n\<close>; in every
  row the cell \<open>TOTAL\<close> is the sum of the row's state cells; every state cell of the row
  \<open>TOTAL\<close> is the sum of that state's cells over the task types.
\<close>

definition totals_ok :: "matrix \<Rightarrow> nat \<Rightarrow> bool" where
  "totals_ok M n \<longleftrightarrow>
     sum_list (map (\<lambda>(name, row). row_sum row) (type_rows M)) = n \<and>
     map_of M ''TOTAL'' \<noteq> None \<and>
     cell (total_row M) ''TOTAL'' = n \<and>
     list_all (\<lambda>(name, row). cell row ''TOTAL'' = row_sum row) M \<and>
     list_all (\<lambda>(state, k). k = sum_list (map (\<lambda>(name, row). cell row state) (type_rows M)))
       (state_cells (total_row M))"

text \<open>A row of the matrix with the count \<open>f s\<close> for each state and the total \<open>g\<close>.\<close>

definition row_of :: "string list \<Rightarrow> (string \<Rightarrow> nat) \<Rightarrow> nat \<Rightarrow> tally" where
  "row_of sl f g = map (\<lambda>s. (s, f s)) sl @ [(''TOTAL'', g)]"

text \<open>
  The variables \<open>taskStats\<close> and \<open>statTotals\<close> of the tally loop after the tasks
  \<open>rs\<close>, for the state list \<open>sl\<close> and the task types \<open>names\<close> in the order in
  which they were first seen: every cell is the number of the tasks it stands for.
\<close>

definition tally_state :: "string list \<Rightarrow> string list \<Rightarrow> (string \<times> string) list \<Rightarrow> matrix \<times> tally" where
  "tally_state sl names rs =
     (map (\<lambda>n. (n, row_of sl (\<lambda>s. length (filter (\<lambda>r. fst r = n \<and> snd r = s) rs))
                     (length (filter (\<lambda>r. fst r = n) rs)))) names,
      row_of sl (\<lambda>s. length (filter (\<lambda>r. snd r = s) rs)) (length rs))"

section \<open>Theorems\<close>

subsection \<open>Basic facts\<close>


lemma ebind_Inr [simp]: "ebind (Inr a) f = f a"
  by (simp add: ebind_def)

lemma ebind_Inl [simp]: "ebind (Inl e) f = Inl e"
  by (simp add: ebind_def)

lemma ebind_eq_Inr: "ebind x f = Inr b \<longleftrightarrow> (\<exists>a. x = Inr a \<and> f a = Inr b)"
  by (cases x) simp_all

lemma index_run_fields [simp]:
  "runnum2id (index_run k rid m) = AList.update k rid (runnum2id m)"
  "runmax (index_run k rid m) = max (runmax m) k"
  "runmin (index_run k rid m) = min (runmin m) k"
  "wrows (index_run k rid m) = wrows m"
  "statList (index_run k rid m) = statList m"
  "statTemplate (index_run k rid m) = statTemplate m"
  "statPresets (index_run k rid m) = statPresets m"
  "taskLimit (index_run k rid m) = taskLimit m"
  "nodeUsage (index_run k rid m) = nodeUsage m"
  by (auto simp: index_run_def Let_def)

lemma index_run_pmon [simp]:
  "pTasks (index_run k rid m) = pTasks m"
  "pTasksFilled (index_run k rid m) = pTasksFilled m"
  "runid2num (index_run k rid m) = runid2num m"
  by (auto simp: index_run_def Let_def)

lemma index_run_pmon2 [simp]:
  "trows (index_run k rid m) = trows m"
  "sumFlag (index_run k rid m) = sumFlag m"
  by (auto simp: index_run_def Let_def)

lemma Max_insert_max:
  fixes a :: int
  shows "finite S \<Longrightarrow> Max (insert (max a b) S) = max a (Max (insert b S))"
  by (cases "S = {}") (simp_all add: max.assoc)

lemma Min_insert_min:
  fixes a :: int
  shows "finite S \<Longrightarrow> Min (insert (min a b) S) = min a (Min (insert b S))"
  by (cases "S = {}") (simp_all add: min.assoc)

lemma load_loop_indexed:
  "indexed runnum rows m (loadWorkflowTable_loop m rows)"
proof (induction rows arbitrary: m)
  case Nil
  show ?case by (simp add: indexed_def)
next
  case (Cons r rows)
  let ?m1 = "index_run (runnum r) (run_id r) (m\<lparr>runid2num2 := AList.update (run_id r) (runnum r) (runid2num2 m)\<rparr>)"
  have ih: "indexed runnum rows ?m1 (loadWorkflowTable_loop ?m1 rows)" by (rule Cons.IH)
  show ?case using ih
    by (simp add: indexed_def Let_def AList.update_conv' Max_insert_max Min_insert_min)
qed

lemma read_loop_indexed:
  assumes "\<forall>r\<in>set rows. py_int L (basename (rundir r)) = Some (num r)"
  shows "\<exists>m'. readWorkflowTable_loop L m rows = Inr m' \<and> indexed num rows m m'"
  using assms
proof (induction rows arbitrary: m)
  case Nil
  show ?case by (simp add: indexed_def)
next
  case (Cons r rows)
  let ?m1 = "index_run (num r) (run_id r)
               (m\<lparr>runid2num := AList.update (run_id r) (basename (rundir r)) (runid2num m)\<rparr>)"
  from Cons.prems have p: "py_int L (basename (rundir r)) = Some (num r)"
    and rest: "\<forall>r\<in>set rows. py_int L (basename (rundir r)) = Some (num r)" by simp_all
  from Cons.IH [OF rest, of ?m1] obtain m' where
    run: "readWorkflowTable_loop L ?m1 rows = Inr m'" and ix: "indexed num rows ?m1 m'" by blast
  have "readWorkflowTable_loop L m (r # rows) = Inr m'"
    using run p by (simp add: Let_def to_int_def)
  moreover have "indexed num (r # rows) m m'"
    using ix by (simp add: indexed_def AList.update_conv' Max_insert_max Min_insert_min)
  ultimately show ?case by blast
qed

lemma selectRunID_loop_found:
  "distinct (map run_id ws) \<Longrightarrow> i < length ws \<Longrightarrow> map_of r2i n = Some (run_id (ws ! i))
   \<Longrightarrow> selectRunID_loop r2i n ws k = Inr (int (k + i))"
proof (induction ws arbitrary: i k)
  case Nil
  then show ?case by simp
next
  case (Cons w ws)
  show ?case
  proof (cases i)
    case 0
    with Cons.prems show ?thesis by (simp add: dict_get_def)
  next
    case (Suc j)
    with Cons.prems have j: "j < length ws" and d: "distinct (map run_id ws)"
      and t: "map_of r2i n = Some (run_id (ws ! j))" and ne: "run_id w \<noteq> run_id (ws ! j)"
      by auto
    from Cons.IH [OF d j t, of "Suc k"] ne t Suc show ?thesis
      by (simp add: dict_get_def)
  qed
qed

lemma filter_distinct_key:
  "distinct (map f xs) \<Longrightarrow> x \<in> set xs \<Longrightarrow> filter (\<lambda>y. f y = f x) xs = [x]"
  by (induction xs) (auto simp: filter_empty_conv image_iff)

lemma py_index_last: "xs \<noteq> [] \<Longrightarrow> py_index xs (- 1) = Inr (last xs)"
  by (cases xs rule: rev_cases) (simp_all add: py_index_def nth_append)

lemma py_index_nat: "i < length xs \<Longrightarrow> py_index xs (int i) = Inr (xs ! i)"
  by (simp add: py_index_def)

lemma resolve_generic:
  fixes m0 m :: "'a pmon_base_scheme"
  assumes ix: "indexed num rows m0 m" and w: "wrows m0 = rows"
    and init: "runmax m0 = - 1" "runmin m0 = 999999999" "runnum2id m0 = []"
    and ids: "distinct (map run_id rows)" and nums: "map num rows = [lo..hi]"
    and bounds: "0 \<le> lo" "lo \<le> hi" "hi \<le> 999999999"
  shows "runmin m = lo \<and> runmax m = hi \<and> wrows m = rows \<and> rows \<noteq> [] \<and>
         selectRow m None = Inr (last rows) \<and> num (last rows) = hi \<and>
         (lo \<le> n \<and> n \<le> hi \<longrightarrow>
            selectRow m (Some n) = Inr (rows ! nat (n - lo)) \<and>
            num (rows ! nat (n - lo)) = n \<and>
            filter (\<lambda>r. num r = n) rows = [rows ! nat (n - lo)])"
proof -
  have len: "length rows = nat (hi - lo + 1)"
    using arg_cong [OF nums, of length] by simp
  have ne: "rows \<noteq> []" using len bounds by auto
  have img: "num ` set rows = {lo..hi}"
    using arg_cong [OF nums, of set] by simp
  have wm: "wrows m = rows" using ix w by (simp add: indexed_def)
  have "Max {lo..hi} = hi" using bounds by (intro Max_eqI) auto
  then have mx: "runmax m = hi"
    using ix init bounds img by (simp add: indexed_def)
  have "Min {lo..hi} = lo" using bounds by (intro Min_eqI) auto
  then have mn: "runmin m = lo"
    using ix init bounds img by (simp add: indexed_def)
  have nth: "num (rows ! i) = lo + int i" if "i < length rows" for i
  proof -
    have "map num rows ! i = [lo..hi] ! i" by (simp add: nums)
    with that len show ?thesis by simp
  qed
  have lst: "num (last rows) = hi"
  proof -
    have "length rows - 1 < length rows" using ne by simp
    from nth [OF this] have "num (rows ! (length rows - 1)) = lo + int (length rows - 1)" .
    also have "\<dots> = hi" using len bounds by simp
    finally show ?thesis using ne by (simp add: last_conv_nth)
  qed
  have r2i: "map_of (runnum2id m) (num (rows ! i)) = Some (run_id (rows ! i))"
    if "i < length rows" for i
  proof -
    have d: "distinct (map fst (rev (map (\<lambda>r. (num r, run_id r)) rows)))"
      by (simp add: rev_map [symmetric] comp_def nums)
    have "(num (rows ! i), run_id (rows ! i)) \<in> set (rev (map (\<lambda>r. (num r, run_id r)) rows))"
      using that by auto
    from map_of_is_SomeI [OF d this] show ?thesis
      using ix init by (simp add: indexed_def)
  qed
  have sel: "selectRow m (Some n) = Inr (rows ! nat (n - lo)) \<and>
             num (rows ! nat (n - lo)) = n \<and>
             filter (\<lambda>r. num r = n) rows = [rows ! nat (n - lo)]"
    if n: "lo \<le> n" "n \<le> hi"
  proof -
    let ?i = "nat (n - lo)"
    have i: "?i < length rows" using n len by simp
    have ni: "num (rows ! ?i) = n" using nth [OF i] n by simp
    have "selectRunID_loop (runnum2id m) n rows 0 = Inr (int (0 + ?i))"
      using selectRunID_loop_found [OF ids i, of "runnum2id m" n 0] r2i [OF i] ni by simp
    then have "selectRunID m (Some n) = Inr (int ?i)"
      by (simp add: selectRunID_def wm)
    then have "selectRow m (Some n) = Inr (rows ! ?i)"
      using py_index_nat [OF i] by (simp add: selectRow_def wm)
    moreover have "filter (\<lambda>r. num r = n) rows = [rows ! ?i]"
      using filter_distinct_key [of num rows "rows ! ?i"] i ni nums by simp
    ultimately show ?thesis using ni by simp
  qed
  have "selectRow m None = Inr (last rows)"
    using ne by (simp add: selectRow_def selectRunID_def wm py_index_last)
  with mn mx wm ne lst sel show ?thesis by blast
qed

lemma indexed_keys:
  "indexed num rows m m' \<Longrightarrow> fst ` set (runnum2id m') = fst ` set (runnum2id m) \<union> num ` set rows"
proof -
  assume ix: "indexed num rows m m'"
  have "dom (map_of (runnum2id m')) =
          dom (map_of (runnum2id m) ++ map_of (rev (map (\<lambda>r. (num r, run_id r)) rows)))"
    using ix by (simp add: indexed_def)
  then show ?thesis
    by (simp add: dom_map_of_conv_image_fst image_image Un_commute)
qed

lemma pmon_init_indexed:
  assumes "\<forall>r\<in>set workflow. py_int L (basename (rundir r)) = Some (num r)"
  shows "\<exists>m0 m. pmon_init L workflow = Inr m \<and> indexed num workflow m0 m \<and>
           wrows m0 = workflow \<and> runmax m0 = - 1 \<and> runmin m0 = 999999999 \<and> runnum2id m0 = []"
proof -
  let ?m0 = "\<lparr>statList = statList_wstat, statTemplate = build_statTemplate statList_wstat,
        statPresets = statPresets_wstat, wrows = workflow, runnum2id = [], numRuns = 0,
        runmin = 999999999, runmax = - 1, taskLimit = 0, nodeUsage = [],
        runid2num = [], pTasks = [], pTasksFilled = False\<rparr>"
  from read_loop_indexed [OF assms, of ?m0] obtain m' where
    run: "readWorkflowTable_loop L ?m0 workflow = Inr m'" and ix: "indexed num workflow ?m0 m'"
    by blast
  have "pmon_init L workflow = Inr (m'\<lparr>numRuns := length workflow\<rparr>)"
    using run by (simp add: pmon_init_def readWorkflowTable_def)
  moreover have "indexed num workflow ?m0 (m'\<lparr>numRuns := length workflow\<rparr>)"
    using ix by (simp add: indexed_def)
  ultimately show ?thesis by fastforce
qed

lemma pmon2_init_indexed:
  "\<exists>m0. indexed runnum workflow m0 (pmon2_init workflow) \<and>
           wrows m0 = workflow \<and> runmax m0 = - 1 \<and> runmin m0 = 999999999 \<and> runnum2id m0 = []"
proof -
  let ?m0 = "\<lparr>statList = statList_wstat2, statTemplate = build_statTemplate statList_wstat2,
        statPresets = statPresets_wstat2, wrows = workflow, runnum2id = [], numRuns = 0,
        runmin = 999999999, runmax = - 1, taskLimit = 0, nodeUsage = [],
        runid2num2 = [], sumFlag = False, trows = []\<rparr>"
  have "indexed runnum workflow ?m0 (loadWorkflowTable_loop ?m0 workflow)"
    by (rule load_loop_indexed)
  then have "indexed runnum workflow ?m0 (pmon2_init workflow)"
    by (simp add: indexed_def pmon2_init_def loadWorkflowTable_def)
  then show ?thesis by fastforce
qed

subsection \<open>Facts about the task loop of wstat.py\<close>

lemma fill_pTask_fields:
  assumes "fill_pTask L m row = Inr p"
  shows "status p = s_task_status_name row" "hostname p = y_hostname row"
    "task_name p = t_task_func_name row" "task_id p = t_task_id row"
    "y_task_try_time_running row = None \<or> y_task_try_time_returned row = None \<Longrightarrow> runTime p = None"
  using assms
  by (auto simp: fill_pTask_def Let_def ebind_eq_Inr timeDiff_def split: option.splits)

lemma fill_pTask_cong:
  "runid2num m' = runid2num m \<Longrightarrow> fill_pTask L m' row = fill_pTask L m row"
  by (simp add: fill_pTask_def)

lemma update_sum_new:
  fixes v :: nat
  shows "map_of nu h = None \<Longrightarrow>
    sum_list (map snd (AList.update h v nu)) = sum_list (map snd nu) + v"
  by (induction nu) (auto split: if_splits)

lemma update_sum_incr:
  "map_of nu h = Some c \<Longrightarrow>
     sum_list (map snd (AList.update h (Suc c) nu)) = Suc (sum_list (map snd nu))"
  by (induction nu) (auto split: if_splits)

lemma node_incr_sum: "sum_list (map snd (node_incr nu h)) = sum_list (map snd nu) + 1"
  by (simp add: node_incr_def update_sum_new update_sum_incr split: option.splits)

lemma node_incr_count:
  "node_count (node_incr nu h) k = node_count nu k + (if k = h then 1 else 0)"
  by (auto simp: node_incr_def node_count_def AList.update_conv' split: option.splits)

lemma node_incr_distinct:
  "distinct (map fst nu) \<Longrightarrow> distinct (map fst (node_incr nu h))"
  by (simp add: node_incr_def AList.distinct_update split: option.splits)

lemma getTaskData_loop_skip:
  "\<not> keepRow (statPresets m) ts (s_task_status_name row) \<Longrightarrow>
     getTaskData_loop L ts m c (row # rows) =
       getTaskData_loop L ts m (c\<lparr>rCount := rCount c + 1\<rparr>) rows"
  by (simp add: Let_def)

lemma getTaskData_loop_fail:
  "keepRow (statPresets m) ts (s_task_status_name row) \<Longrightarrow> fill_pTask L m row = Inl e \<Longrightarrow>
     getTaskData_loop L ts m c (row # rows) = Inl e"
  by (simp add: Let_def)

lemma getTaskData_loop_keep:
  assumes "keepRow (statPresets m) ts (s_task_status_name row)" "fill_pTask L m row = Inr p"
  shows "\<exists>m2 c3.
     getTaskData_loop L ts m c (row # rows) =
       (if taskLimit m > 0 \<and> int (grCount c3) \<ge> taskLimit m then Inr (m2, c3)
        else getTaskData_loop L ts m2 c3 rows) \<and>
     m2 = m\<lparr>nodeUsage := nodeUsage m2, pTasks := pTasks m @ [p]\<rparr> \<and>
     nodeUsage m2 = (if status p = ''running''
                     then node_incr (nodeUsage m) (host_key (hostname p)) else nodeUsage m) \<and>
     nRunning c3 = nRunning c + (if status p = ''running'' then 1 else 0)"
proof (cases "s_task_status_name row = ''running''")
  case True
  show ?thesis
    using assms True fill_pTask_fields(1,2) [OF assms(2)]
    by (intro exI [of _ "m\<lparr>nodeUsage := node_incr (nodeUsage m) (host_key (y_hostname row)),
                              pTasks := pTasks m @ [p]\<rparr>"]
              exI [of _ "c\<lparr>rCount := rCount c + 1, grCount := grCount c + 1,
                              nRunning := nRunning c + 1\<rparr>"])
       (simp add: Let_def)
next
  case False
  show ?thesis
    using assms False fill_pTask_fields(1,2) [OF assms(2)]
    by (intro exI [of _ "m\<lparr>pTasks := pTasks m @ [p]\<rparr>"]
              exI [of _ "c\<lparr>rCount := rCount c + 1, grCount := grCount c + 1\<rparr>"])
       (simp add: Let_def)
qed

lemma getTaskData_loop_post:
  "getTaskData_loop L ts m c rows = Inr (m', c') \<Longrightarrow>
     \<exists>new. m' = m\<lparr>nodeUsage := nodeUsage m', pTasks := pTasks m @ new\<rparr> \<and>
       nRunning c' = nRunning c + length (filter (\<lambda>p. status p = ''running'') new) \<and>
       sum_list (map snd (nodeUsage m')) =
         sum_list (map snd (nodeUsage m)) + length (filter (\<lambda>p. status p = ''running'') new) \<and>
       (\<forall>h. node_count (nodeUsage m') h = node_count (nodeUsage m) h +
              length (filter (\<lambda>p. status p = ''running'' \<and> host_key (hostname p) = h) new)) \<and>
       (distinct (map fst (nodeUsage m)) \<longrightarrow> distinct (map fst (nodeUsage m'))) \<and>
       (\<forall>p\<in>set new. keepRow (statPresets m) ts (status p)) \<and>
       (taskLimit m \<le> 0 \<longrightarrow>
          map status new = filter (keepRow (statPresets m) ts) (map s_task_status_name rows))"
proof (induction rows arbitrary: m c)
  case Nil
  then show ?case by (intro exI [of _ "[]"]) auto
next
  case (Cons row rows)
  show ?case
  proof (cases "keepRow (statPresets m) ts (s_task_status_name row)")
    case False
    have "getTaskData_loop L ts m (c\<lparr>rCount := rCount c + 1\<rparr>) rows = Inr (m', c')"
      using Cons.prems getTaskData_loop_skip [OF False, of L c rows] by simp
    from Cons.IH [OF this] False show ?thesis by simp
  next
    case True
    from Cons.prems True obtain p where fp: "fill_pTask L m row = Inr p"
      by (cases "fill_pTask L m row") (auto simp: getTaskData_loop_fail simp del: getTaskData_loop.simps)
    note pf = fill_pTask_fields(1) [OF fp]
    have kp: "keepRow (statPresets m) ts (status p)" using True pf by simp
    from getTaskData_loop_keep [OF True fp, of c rows] obtain m2 c3 where
      eq: "getTaskData_loop L ts m c (row # rows) =
       (if taskLimit m > 0 \<and> int (grCount c3) \<ge> taskLimit m then Inr (m2, c3)
        else getTaskData_loop L ts m2 c3 rows)"
      and m2: "m2 = m\<lparr>nodeUsage := nodeUsage m2, pTasks := pTasks m @ [p]\<rparr>"
      and nu: "nodeUsage m2 = (if status p = ''running''
                     then node_incr (nodeUsage m) (host_key (hostname p)) else nodeUsage m)"
      and nr: "nRunning c3 = nRunning c + (if status p = ''running'' then 1 else 0)"
      by blast
    have sp: "statPresets m2 = statPresets m" "taskLimit m2 = taskLimit m"
      "pTasks m2 = pTasks m @ [p]"
      by (subst m2, simp)+
    show ?thesis
    proof (cases "taskLimit m > 0 \<and> int (grCount c3) \<ge> taskLimit m")
      case True
      with Cons.prems eq have res: "m' = m2" "c' = c3" by simp_all
      have lim: "\<not> taskLimit m \<le> 0" using True by simp
      have "m' = m\<lparr>nodeUsage := nodeUsage m', pTasks := pTasks m @ [p]\<rparr>"
        using m2 res by simp
      then show ?thesis
        using res nu nr kp lim
        by (intro exI [of _ "[p]"])
           (simp add: node_incr_sum node_incr_count node_incr_distinct)
    next
      case False
      with Cons.prems eq have "getTaskData_loop L ts m2 c3 rows = Inr (m', c')" by simp
      from Cons.IH [OF this] obtain new where
        n: "m' = m2\<lparr>nodeUsage := nodeUsage m', pTasks := pTasks m2 @ new\<rparr>"
        "nRunning c' = nRunning c3 + length (filter (\<lambda>p. status p = ''running'') new)"
        "sum_list (map snd (nodeUsage m')) =
           sum_list (map snd (nodeUsage m2)) + length (filter (\<lambda>p. status p = ''running'') new)"
        "\<forall>h. node_count (nodeUsage m') h = node_count (nodeUsage m2) h +
              length (filter (\<lambda>p. status p = ''running'' \<and> host_key (hostname p) = h) new)"
        "distinct (map fst (nodeUsage m2)) \<longrightarrow> distinct (map fst (nodeUsage m'))"
        "\<forall>p\<in>set new. keepRow (statPresets m2) ts (status p)"
        "taskLimit m2 \<le> 0 \<longrightarrow>
          map status new = filter (keepRow (statPresets m2) ts) (map s_task_status_name rows)"
        by blast
      have "m' = m\<lparr>nodeUsage := nodeUsage m', pTasks := pTasks m @ p # new\<rparr>"
        by (subst n(1), subst m2, simp add: sp)
      then show ?thesis
        using n(2-) nu nr kp True pf sp
        by (intro exI [of _ "p # new"])
           (simp add: node_incr_sum node_incr_count node_incr_distinct)
    qed
  qed
qed

subsection \<open>The run index\<close>

text \<open>
  C10: with an empty run table, \<open>selectRunID\<close> answers the request \<open>None\<close> with
  the index \<open>-1\<close>, and indexing the empty list of run rows with it raises IndexError
  in \<open>printWorkflowSummary\<close> and in \<open>getTaskData\<close>. Nothing catches it: the main
  program of either file ends with that exception instead of a report or of the
  out-of-range message, whatever the task data and the report type.
\<close>

theorem empty_run_table_default_run:
  fixes m1 :: pmon and m2 :: pmon2
  shows "selectRunID m1 None = Inr (- 1) \<and> selectRunID m2 None = Inr (- 1) \<and>
   printWorkflowSummary L (m1\<lparr>wrows := []\<rparr>) None = Inl IndexError \<and>
   printWorkflowSummary2 (m2\<lparr>wrows := []\<rparr>) None = Inl IndexError \<and>
   getTaskData L tRowz (m1\<lparr>wrows := []\<rparr>) None taskStatus = Inl IndexError \<and>
   wstat_main L [] tRowz reportType None taskStatus limit = Inl IndexError \<and>
   wstat2_main [] summary None = Inl IndexError"
proof -
  have "wstat_main L [] tRowz reportType None taskStatus limit = Inl IndexError"
    by (cases reportType)
       (simp_all add: wstat_main_def pmon_init_def readWorkflowTable_def check_runnum_def
          shortSummary_def taskSummary_def printWorkflowSummary_def selectRunID_def py_index_def)
  moreover have "wstat2_main [] summary None = Inl IndexError"
    by (simp add: wstat2_main_def pmon2_init_def loadWorkflowTable_def check_runnum_def
          shortSummary2_def printWorkflowSummary2_def selectRunID_def py_index_def)
  ultimately show ?thesis
    by (simp add: printWorkflowSummary_def printWorkflowSummary2_def getTaskData_def
          selectRunID_def py_index_def)
qed

text \<open>
  C6, as stated, for wstat.py: a run table with the single run that Parsl started in
  \<open>runinfo/000\<close> is indexed under the run number 0, not 1.
\<close>

theorem run_number_from_rundir_is_0:
  "pmon_init testlib [run_a] =
     Inr \<lparr>statList = statList_wstat, statTemplate = build_statTemplate statList_wstat,
          statPresets = statPresets_wstat, wrows = [run_a], runnum2id = [(0, ''a'')],
          numRuns = 1, runmin = 0, runmax = 0, taskLimit = 0, nodeUsage = [],
          runid2num = [(''a'', ''000'')], pTasks = [], pTasksFilled = False\<rparr>"
  by (simp add: pmon_init_def readWorkflowTable_def run_a_def to_int_def testlib_def
        dec_int_def basename_def index_run_def Let_def)

text \<open>
  C6, amended: neither loader assigns run numbers. The number of a run is read from its
  row: in wstat.py it is \<open>int\<close> of the last component of \<open>rundir\<close>, in wstat2.py the
  column \<open>runnum\<close> of \<open>runview\<close>. For every non-empty run table whose numbers lie
  between -1 and 999999999, \<open>runmin\<close> and \<open>runmax\<close> are the smallest and the largest
  number loaded, and the keys of \<open>runnum2id\<close> are exactly the numbers loaded.
\<close>

theorem run_index_extremes:
  assumes "workflow \<noteq> []" "\<forall>r\<in>set workflow. - 1 \<le> num r \<and> num r \<le> 999999999"
    and "workflow2 \<noteq> []" "\<forall>r\<in>set workflow2. - 1 \<le> runnum r \<and> runnum r \<le> 999999999"
  shows "((\<forall>r\<in>set workflow. py_int L (basename (rundir r)) = Some (num r)) \<longrightarrow>
           (\<exists>m. pmon_init L workflow = Inr m \<and>
                runmin m = Min (num ` set workflow) \<and> runmax m = Max (num ` set workflow) \<and>
                fst ` set (runnum2id m) = num ` set workflow)) \<and>
         runmin (pmon2_init workflow2) = Min (runnum ` set workflow2) \<and>
         runmax (pmon2_init workflow2) = Max (runnum ` set workflow2) \<and>
         fst ` set (runnum2id (pmon2_init workflow2)) = runnum ` set workflow2"
proof -
  have ext: "runmin m = Min (f ` set rows) \<and> runmax m = Max (f ` set rows) \<and>
             fst ` set (runnum2id m) = f ` set rows"
    if ix: "indexed f rows m0 m" and i: "runmax m0 = - 1" "runmin m0 = 999999999" "runnum2id m0 = []"
      and ne: "rows \<noteq> []" and b: "\<forall>r\<in>set rows. - 1 \<le> f r \<and> f r \<le> 999999999"
    for f rows and m0 m :: "'a pmon_base_scheme"
  proof -
    have fin: "finite (f ` set rows)" and nes: "f ` set rows \<noteq> {}" using ne by simp_all
    have "- 1 \<le> Max (f ` set rows)"
      using b fin nes by (simp add: Max_ge_iff) (metis ne last_in_set)
    then have "runmax m = Max (f ` set rows)"
      using ix i fin nes by (simp add: indexed_def)
    moreover have "Min (f ` set rows) \<le> 999999999"
      using b fin nes by (simp add: Min_le_iff) (metis ne last_in_set)
    then have "runmin m = Min (f ` set rows)"
      using ix i fin nes by (simp add: indexed_def)
    moreover have "fst ` set (runnum2id m) = f ` set rows"
      using indexed_keys [OF ix] i by simp
    ultimately show ?thesis by simp
  qed
  have "\<exists>m. pmon_init L workflow = Inr m \<and>
                runmin m = Min (num ` set workflow) \<and> runmax m = Max (num ` set workflow) \<and>
                fst ` set (runnum2id m) = num ` set workflow"
    if p: "\<forall>r\<in>set workflow. py_int L (basename (rundir r)) = Some (num r)"
  proof -
    from pmon_init_indexed [OF p] obtain m0 m where
      "pmon_init L workflow = Inr m" "indexed num workflow m0 m"
      "runmax m0 = - 1" "runmin m0 = 999999999" "runnum2id m0 = []" by blast
    with ext [of num workflow m0 m] assms(1,2) show ?thesis by blast
  qed
  moreover from pmon2_init_indexed [of workflow2] obtain m0 where
      "indexed runnum workflow2 m0 (pmon2_init workflow2)"
      "runmax m0 = - 1" "runmin m0 = 999999999" "runnum2id m0 = []" by blast
  with ext [of runnum workflow2 m0 "pmon2_init workflow2"] assms(3,4)
  have "runmin (pmon2_init workflow2) = Min (runnum ` set workflow2) \<and>
         runmax (pmon2_init workflow2) = Max (runnum ` set workflow2) \<and>
         fst ` set (runnum2id (pmon2_init workflow2)) = runnum ` set workflow2" by blast
  ultimately show ?thesis by blast
qed

theorem run_index_extremes_witness:
  "(\<exists>m. pmon_init testlib [run_a, run_b] = Inr m \<and> runmin m = 0 \<and> runmax m = 1 \<and>
        fst ` set (runnum2id m) = {0, 1}) \<and>
   runmin (pmon2_init [run_a, run_b]) = 1 \<and> runmax (pmon2_init [run_a, run_b]) = 2 \<and>
   fst ` set (runnum2id (pmon2_init [run_a, run_b])) = {1, 2}"
proof -
  have h1: "[run_a, run_b] \<noteq> []" by simp
  have h2: "\<forall>r\<in>set [run_a, run_b]. - 1 \<le> runnum r - 1 \<and> runnum r - 1 \<le> 999999999"
    by (simp add: run_a_def run_b_def)
  have h3: "\<forall>r\<in>set [run_a, run_b]. - 1 \<le> runnum r \<and> runnum r \<le> 999999999"
    by (simp add: run_a_def run_b_def)
  have h4: "\<forall>r\<in>set [run_a, run_b]. py_int testlib (basename (rundir r)) = Some (runnum r - 1)"
    by (simp add: run_a_def run_b_def testlib_def dec_int_def basename_def)
  have v: "runnum run_a = 1" "runnum run_b = 2" by (simp_all add: run_a_def run_b_def)
  show ?thesis
    using run_index_extremes [OF h1 h2 h1 h3, of testlib] h4
    by (simp add: v insert_commute)
qed

text \<open>
  C3, amended: for every non-empty run table with distinct run ids whose run numbers, in
  start-time order, are the gapless increasing sequence \<open>lo..hi\<close> (from 0 on in
  wstat.py, where Parsl's \<open>runinfo/NNN\<close> gives the number; from 1 on in wstat2.py,
  where \<open>runview\<close> gives it): the request \<open>None\<close> selects the last row, whose number
  is \<open>runmax\<close>; a number outside \<open>runmin..runmax\<close> ends the main program with the
  out-of-range message and exit status 1, whatever the task data and the report type; a
  number inside passes the check and selects the one row that has this number.
\<close>

theorem resolve_run_gapless:
  assumes "distinct (map run_id workflow)" "0 \<le> lo" "lo \<le> hi" "hi \<le> 999999999"
    and "distinct (map run_id workflow2)" "0 \<le> lo2" "lo2 \<le> hi2" "hi2 \<le> 999999999"
  shows
   "(map (\<lambda>r. py_int L (basename (rundir r))) workflow = map Some [lo..hi] \<longrightarrow>
      (\<exists>m. pmon_init L workflow = Inr m \<and> runmin m = lo \<and> runmax m = hi \<and>
         selectRow m None = Inr (last workflow) \<and>
         py_int L (basename (rundir (last workflow))) = Some (runmax m) \<and>
         (k < runmin m \<or> runmax m < k \<longrightarrow>
            wstat_main L workflow tRowz reportType (Some k) taskStatus limit = Inl (SystemExit 1)) \<and>
         (runmin m \<le> n \<and> n \<le> runmax m \<longrightarrow>
            check_runnum m (Some n) = Inr () \<and>
            selectRow m (Some n) = Inr (workflow ! nat (n - lo)) \<and>
            py_int L (basename (rundir (workflow ! nat (n - lo)))) = Some n \<and>
            filter (\<lambda>r. py_int L (basename (rundir r)) = Some n) workflow
              = [workflow ! nat (n - lo)]))) \<and>
    (map runnum workflow2 = [lo2..hi2] \<longrightarrow>
      runmin (pmon2_init workflow2) = lo2 \<and> runmax (pmon2_init workflow2) = hi2 \<and>
      selectRow (pmon2_init workflow2) None = Inr (last workflow2) \<and>
      runnum (last workflow2) = runmax (pmon2_init workflow2) \<and>
      (k2 < lo2 \<or> hi2 < k2 \<longrightarrow> wstat2_main workflow2 summary (Some k2) = Inl (SystemExit 1)) \<and>
      (lo2 \<le> n2 \<and> n2 \<le> hi2 \<longrightarrow>
         check_runnum (pmon2_init workflow2) (Some n2) = Inr () \<and>
         selectRow (pmon2_init workflow2) (Some n2) = Inr (workflow2 ! nat (n2 - lo2)) \<and>
         runnum (workflow2 ! nat (n2 - lo2)) = n2 \<and>
         filter (\<lambda>r. runnum r = n2) workflow2 = [workflow2 ! nat (n2 - lo2)]))"
proof (intro conjI impI)
  assume nums: "map (\<lambda>r. py_int L (basename (rundir r))) workflow = map Some [lo..hi]"
  define num where "num r = the (py_int L (basename (rundir r)))" for r :: wrow
  have len: "length workflow = length [lo..hi]"
    using arg_cong [OF nums, of length] by simp
  have p: "py_int L (basename (rundir (workflow ! i))) = Some ([lo..hi] ! i)"
    if "i < length workflow" for i
    using arg_cong [OF nums, of "\<lambda>xs. xs ! i"] that len by simp
  have pn: "\<forall>r\<in>set workflow. py_int L (basename (rundir r)) = Some (num r)"
    using p by (auto simp: in_set_conv_nth num_def)
  have nn: "map num workflow = [lo..hi]"
    using p len by (intro nth_equalityI) (simp_all add: num_def)
  from pmon_init_indexed [OF pn] obtain m0 m where
    init: "pmon_init L workflow = Inr m" and ix: "indexed num workflow m0 m"
    and m0: "wrows m0 = workflow" "runmax m0 = - 1" "runmin m0 = 999999999" "runnum2id m0 = []"
    by blast
  note g = resolve_generic [OF ix m0 assms(1) nn assms(2,3,4)]
  have ne: "workflow \<noteq> []" using g by blast
  have "wstat_main L workflow tRowz reportType (Some k) taskStatus limit = Inl (SystemExit 1)"
    if "k < lo \<or> hi < k"
    using that init g [of 0] by (auto simp: wstat_main_def check_runnum_def)
  moreover have "py_int L (basename (rundir (last workflow))) = Some hi"
    using pn ne g [of 0] by simp
  moreover have "py_int L (basename (rundir (workflow ! nat (n - lo)))) = Some n \<and>
        filter (\<lambda>r. py_int L (basename (rundir r)) = Some n) workflow
              = [workflow ! nat (n - lo)]"
    if n: "lo \<le> n" "n \<le> hi"
  proof -
    have i: "nat (n - lo) < length workflow" using n len by simp
    have "filter (\<lambda>r. py_int L (basename (rundir r)) = Some n) workflow
            = filter (\<lambda>r. num r = n) workflow"
      using pn by (intro filter_cong) auto
    with g [of n] n p [OF i] i len show ?thesis by simp
  qed
  ultimately show "\<exists>m. pmon_init L workflow = Inr m \<and> runmin m = lo \<and> runmax m = hi \<and>
         selectRow m None = Inr (last workflow) \<and>
         py_int L (basename (rundir (last workflow))) = Some (runmax m) \<and>
         (k < runmin m \<or> runmax m < k \<longrightarrow>
            wstat_main L workflow tRowz reportType (Some k) taskStatus limit = Inl (SystemExit 1)) \<and>
         (runmin m \<le> n \<and> n \<le> runmax m \<longrightarrow>
            check_runnum m (Some n) = Inr () \<and>
            selectRow m (Some n) = Inr (workflow ! nat (n - lo)) \<and>
            py_int L (basename (rundir (workflow ! nat (n - lo)))) = Some n \<and>
            filter (\<lambda>r. py_int L (basename (rundir r)) = Some n) workflow
              = [workflow ! nat (n - lo)])"
    using init g [of n] by (intro exI [of _ m]) (auto simp: check_runnum_def)
next
  assume nums: "map runnum workflow2 = [lo2..hi2]"
  from pmon2_init_indexed [of workflow2] obtain m0 where
    ix: "indexed runnum workflow2 m0 (pmon2_init workflow2)"
    and m0: "wrows m0 = workflow2" "runmax m0 = - 1" "runmin m0 = 999999999" "runnum2id m0 = []"
    by blast
  note g = resolve_generic [OF ix m0 assms(5) nums assms(6,7,8)]
  show "runmin (pmon2_init workflow2) = lo2" using g by blast
  show "runmax (pmon2_init workflow2) = hi2" using g by blast
  show "selectRow (pmon2_init workflow2) None = Inr (last workflow2)" using g by blast
  show "runnum (last workflow2) = runmax (pmon2_init workflow2)" using g [of 0] by simp
  show "wstat2_main workflow2 summary (Some k2) = Inl (SystemExit 1)" if "k2 < lo2 \<or> hi2 < k2"
    using that g [of 0] by (auto simp: wstat2_main_def check_runnum_def Let_def)
  show "check_runnum (pmon2_init workflow2) (Some n2) = Inr ()" if "lo2 \<le> n2 \<and> n2 \<le> hi2"
    using that g [of 0] by (auto simp: check_runnum_def)
  show "selectRow (pmon2_init workflow2) (Some n2) = Inr (workflow2 ! nat (n2 - lo2))"
    if "lo2 \<le> n2 \<and> n2 \<le> hi2" using that g [of n2] by simp
  show "runnum (workflow2 ! nat (n2 - lo2)) = n2" if "lo2 \<le> n2 \<and> n2 \<le> hi2"
    using that g [of n2] by simp
  show "filter (\<lambda>r. runnum r = n2) workflow2 = [workflow2 ! nat (n2 - lo2)]"
    if "lo2 \<le> n2 \<and> n2 \<le> hi2" using that g [of n2] by simp
qed

theorem resolve_run_gapless_witness:
  "(\<exists>m. pmon_init testlib [run_a, run_b, run_c] = Inr m \<and> runmin m = 0 \<and> runmax m = 2 \<and>
        selectRow m None = Inr run_c \<and> selectRow m (Some 1) = Inr run_b \<and>
        check_runnum m (Some 1) = Inr ()) \<and>
   wstat_main testlib [run_a, run_b, run_c] [] ShortSummary (Some 5) None 0 = Inl (SystemExit 1) \<and>
   runmin (pmon2_init [run_a, run_b, run_c]) = 1 \<and>
   runmax (pmon2_init [run_a, run_b, run_c]) = 3 \<and>
   selectRow (pmon2_init [run_a, run_b, run_c]) None = Inr run_c \<and>
   selectRow (pmon2_init [run_a, run_b, run_c]) (Some 2) = Inr run_b \<and>
   wstat2_main [run_a, run_b, run_c] [] (Some 0) = Inl (SystemExit 1)"
proof -
  let ?wf = "[run_a, run_b, run_c]"
  have d: "distinct (map run_id ?wf)" by (simp add: run_a_def run_b_def run_c_def)
  have n1: "map (\<lambda>r. py_int testlib (basename (rundir r))) ?wf = map Some [0..2]"
    by (simp add: run_a_def run_b_def run_c_def testlib_def dec_int_def basename_def upto.simps)
  have n2: "map runnum ?wf = [1..3]"
    by (simp add: run_a_def run_b_def run_c_def upto.simps)
  have b: "(0::int) \<le> 0" "(0::int) \<le> 2" "(2::int) \<le> 999999999"
          "(0::int) \<le> 1" "(1::int) \<le> 3" "(3::int) \<le> 999999999" by simp_all
  from resolve_run_gapless [OF d b(1,2,3) d b(4,5,6), of testlib 5 "[]" ShortSummary None 0 1 0 "[]" 2]
    n1 n2
  show ?thesis by (auto simp: nat_diff_distrib)
qed

text \<open>
  C3, as stated, fails on two run tables. With the runs of \<open>runinfo/000\<close> and
  \<open>runinfo/002\<close> loaded by wstat.py, \<open>runmin\<close> is 0 and \<open>runmax\<close> is 2, the number
  1 passes the range check, and \<open>selectRunID\<close> raises KeyError at
  \<open>self.runnum2id[1]\<close>. With an empty run table the request \<open>None\<close> raises
  IndexError in both programs.
\<close>

theorem resolve_run_fails_on_gap_or_empty:
  "map_sum id runmin (pmon_init testlib [run_a, run_c]) = Inr 0 \<and>
   map_sum id runmax (pmon_init testlib [run_a, run_c]) = Inr 2 \<and>
   wstat_main testlib [run_a, run_c] [] ShortSummary (Some 1) None 0 = Inl KeyError \<and>
   wstat_main testlib [] [] ShortSummary None None 0 = Inl IndexError \<and>
   wstat2_main [] [] None = Inl IndexError"
  by (simp add: wstat_main_def wstat2_main_def pmon_init_def pmon2_init_def
        readWorkflowTable_def loadWorkflowTable_def run_a_def run_c_def to_int_def testlib_def
        dec_int_def basename_def index_run_def Let_def check_runnum_def shortSummary_def
        shortSummary2_def printWorkflowSummary_def printWorkflowSummary2_def selectRunID_def
        dict_get_def py_index_def)


subsection \<open>Node usage\<close>

text \<open>
  Evaluation of \<open>getTaskData\<close> on the example rows.
\<close>

lemma getTaskData_example:
  "getTaskData testlib [task_0, task_1, task_2, task_3] pmon_a None None =
     Inr (pmon_a\<lparr>nodeUsage := [(''node07'', 1), (''unknown'', 1)],
                 pTasks := [ptask_0, ptask_1, ptask_2, ptask_3], pTasksFilled := True\<rparr>,
          \<lparr>rCount = 4, grCount = 4, nRunning = 2\<rparr>)"
  by (simp add: getTaskData_def selectRunID_def py_index_def pmon_a_def dict_get_def to_int_def
        testlib_def dec_int_def task_0_def task_1_def task_2_def task_3_def keepRow_def
        fill_pTask_def stripms_def timeDiff_def makedt_def Let_def node_incr_def host_key_def
        ptask_0_def ptask_1_def ptask_2_def ptask_3_def run_a_def)

text \<open>
  C9: when \<open>getTaskData\<close> is called on an instance whose \<open>nodeUsage\<close> is still
  empty, as the constructor leaves it, and returns, then the counts of \<open>nodeUsage\<close> add
  up to \<open>nRunning\<close>; \<open>nRunning\<close> is the number of rows stored by this call whose
  status is exactly \<open>running\<close>; every stored row passed the status filter; and the
  count of each host key is the number of stored running rows with that key, the key of
  an absent host being \<open>unknown\<close>.
\<close>

theorem nodeUsage_sum_is_nRunning:
  assumes "nodeUsage m = []" and "getTaskData L tRowz m req taskStatus = Inr (m', c)"
  shows "sum_list (map snd (nodeUsage m')) = nRunning c \<and>
     nRunning c = length (filter (\<lambda>p. status p = ''running'') (drop (length (pTasks m)) (pTasks m'))) \<and>
     (\<forall>p\<in>set (drop (length (pTasks m)) (pTasks m')). keepRow (statPresets m) taskStatus (status p)) \<and>
     node_count (nodeUsage m') h =
       length (filter (\<lambda>p. status p = ''running'' \<and> host_key (hostname p) = h)
                 (drop (length (pTasks m)) (pTasks m'))) \<and>
     (\<forall>(k, n)\<in>set (nodeUsage m').
        n = length (filter (\<lambda>p. status p = ''running'' \<and> host_key (hostname p) = k)
                      (drop (length (pTasks m)) (pTasks m')))) \<and>
     host_key None = ''unknown''"
proof -
  from assms(2) obtain m1 where
    loop: "getTaskData_loop L taskStatus m \<lparr>rCount = 0, grCount = 0, nRunning = 0\<rparr> tRowz = Inr (m1, c)"
    and m': "m' = m1\<lparr>pTasksFilled := True\<rparr>"
    by (auto simp: getTaskData_def ebind_eq_Inr)
  from getTaskData_loop_post [OF loop] obtain new where
    n: "m1 = m\<lparr>nodeUsage := nodeUsage m1, pTasks := pTasks m @ new\<rparr>"
    "nRunning c = length (filter (\<lambda>p. status p = ''running'') new)"
    "sum_list (map snd (nodeUsage m1)) = length (filter (\<lambda>p. status p = ''running'') new)"
    "\<forall>h. node_count (nodeUsage m1) h =
              length (filter (\<lambda>p. status p = ''running'' \<and> host_key (hostname p) = h) new)"
    "distinct (map fst (nodeUsage m1))"
    "\<forall>p\<in>set new. keepRow (statPresets m) taskStatus (status p)"
    using assms(1) by (auto simp: node_count_def)
  have pt: "pTasks m1 = pTasks m @ new" by (subst n(1)) simp
  have new: "drop (length (pTasks m)) (pTasks m') = new" and nu: "nodeUsage m' = nodeUsage m1"
    using m' pt by simp_all
  have ent: "n = length (filter (\<lambda>p. status p = ''running'' \<and> host_key (hostname p) = k) new)"
    if "(k, n) \<in> set (nodeUsage m1)" for k n
  proof -
    from that n(5) have "map_of (nodeUsage m1) k = Some n" by simp
    with n(4) show ?thesis by (auto simp: node_count_def split: option.splits dest: spec [of _ k])
  qed
  show ?thesis
    using n(2,3,4,6) ent by (auto simp: new nu host_key_def)
qed

theorem nodeUsage_sum_is_nRunning_witness:
  "nodeUsage pmon_a = [] \<and>
   getTaskData testlib [task_0, task_1, task_2, task_3] pmon_a None None =
     Inr (pmon_a\<lparr>nodeUsage := [(''node07'', 1), (''unknown'', 1)],
                 pTasks := [ptask_0, ptask_1, ptask_2, ptask_3], pTasksFilled := True\<rparr>,
          \<lparr>rCount = 4, grCount = 4, nRunning = 2\<rparr>) \<and>
   sum_list (map snd [(''node07'', 1::nat), (''unknown'', 1)]) = 2"
proof -
  have h: "nodeUsage pmon_a = []" by (simp add: pmon_a_def)
  note t = nodeUsage_sum_is_nRunning [OF h getTaskData_example, of "''unknown''"]
  from t [THEN conjunct1] have "sum_list (map snd [(''node07'', 1::nat), (''unknown'', 1)]) = 2"
    by simp
  with h getTaskData_example show ?thesis by (intro conjI)
qed

subsection \<open>Filters\<close>


lemma where_holds_append [simp]:
  "where_holds (xs @ ys) r \<longleftrightarrow> where_holds xs r \<and> where_holds ys r"
  by (simp add: where_holds_def)

lemma where_holds_opt_clause [simp]:
  "where_holds (opt_clause x test) r \<longleftrightarrow> (case x of None \<Rightarrow> True | Some v \<Rightarrow> test v r)"
  by (simp add: where_holds_def opt_clause_def split: option.splits)







subsection \<open>Durations\<close>

lemma plotStats_step_missing:
  "no_runtime task \<Longrightarrow>
     nErrors (plotStats_step st task) = nErrors st + 1 \<and>
     nTasks (plotStats_step st task) = nTasks st + 1 \<and>
     printed (plotStats_step st task) =
       printed st @ (if nErrors st < 9 then [NoRuntime task]
                     else if nErrors st = 9 then [TooMany] else [])"
  by (simp add: plotStats_step_def no_runtime_def Let_def)

lemma plotStats_step_other:
  "\<not> no_runtime task \<Longrightarrow>
     nErrors (plotStats_step st task) = nErrors st \<and>
     nTasks (plotStats_step st task) = nTasks st + 1 \<and>
     printed (plotStats_step st task) = printed st"
  by (auto simp: plotStats_step_def no_runtime_def Let_def split: option.splits)

lemma plotStats_loop_post:
  "nErrors (plotStats_loop st tasks) = nErrors st + length (filter no_runtime tasks) \<and>
   nTasks (plotStats_loop st tasks) = nTasks st + length tasks \<and>
   printed (plotStats_loop st tasks) =
     printed st @ map NoRuntime (take (9 - nErrors st) (filter no_runtime tasks)) @
       (if nErrors st < 10 \<and> 10 \<le> nErrors st + length (filter no_runtime tasks)
        then [TooMany] else [])"
proof (induction tasks arbitrary: st)
  case Nil
  show ?case by simp
next
  case (Cons task tasks)
  show ?case
  proof (cases "no_runtime task")
    case True
    from plotStats_step_missing [OF True, of st] Cons.IH [of "plotStats_step st task"] True
    show ?thesis by (auto simp: take_Cons')
  next
    case False
    from plotStats_step_other [OF False, of st] Cons.IH [of "plotStats_step st task"] False
    show ?thesis by simp
  qed
qed

lemma fill_pTask_example: "fill_pTask testlib pmon_a task_2 = Inr ptask_2"
  by (simp add: pmon_a_def dict_get_def testlib_def dec_int_def task_2_def
        fill_pTask_def stripms_def timeDiff_def makedt_def Let_def ptask_2_def)

text \<open>
  C7: \<open>timeDiff\<close> returns \<open>None\<close>, neither zero nor an exception, when an endpoint
  is \<open>None\<close>, so the \<open>runTime\<close> of a stored task row is \<open>None\<close> when the time it
  started or the time it returned is absent. In \<open>plotStats\<close> every task whose status
  contains \<open>done\<close> and whose runtime is \<open>None\<close> is counted in \<open>nErrors\<close>; the
  first nine of them are reported one by one, the tenth by the message "Too many tasks
  with no runtime", the later ones not at all; the loop goes through all tasks, and with
  task data loaded \<open>plotStats\<close> returns its tally without an exception.
\<close>

theorem missing_duration_is_absent_and_flagged:
  "timeDiff L None e = Inr None \<and> timeDiff L s None = Inr None \<and>
   (fill_pTask L m row = Inr p \<and>
    (y_task_try_time_running row = None \<or> y_task_try_time_returned row = None)
      \<longrightarrow> runTime p = None) \<and>
   nErrors (plotStats_loop ptally_init tasks) = length (filter no_runtime tasks) \<and>
   printed (plotStats_loop ptally_init tasks) =
     map NoRuntime (take 9 (filter no_runtime tasks)) @
       (if 10 \<le> length (filter no_runtime tasks) then [TooMany] else []) \<and>
   nTasks (plotStats_loop ptally_init tasks) = length tasks \<and>
   (pTasksFilled m \<and> pTasks m \<noteq> [] \<longrightarrow>
      plotStats L tRowz m req = Inr (m, Some (plotStats_loop ptally_init (pTasks m))))"
proof -
  have 1: "timeDiff L None e = Inr None" "timeDiff L s None = Inr None"
    by (simp_all add: timeDiff_def split: option.splits)
  have 2: "runTime p = None"
    if "fill_pTask L m row = Inr p \<and>
        (y_task_try_time_running row = None \<or> y_task_try_time_returned row = None)"
    using that fill_pTask_fields(5) [of L m row p] by blast
  have 3: "nErrors (plotStats_loop ptally_init tasks) = length (filter no_runtime tasks)"
    "printed (plotStats_loop ptally_init tasks) =
     map NoRuntime (take 9 (filter no_runtime tasks)) @
       (if 10 \<le> length (filter no_runtime tasks) then [TooMany] else [])"
    "nTasks (plotStats_loop ptally_init tasks) = length tasks"
    using plotStats_loop_post [of ptally_init tasks] by (simp_all add: ptally_init_def)
  have 4: "plotStats L tRowz m req = Inr (m, Some (plotStats_loop ptally_init (pTasks m)))"
    if "pTasksFilled m \<and> pTasks m \<noteq> []"
    using that by (simp add: plotStats_def ptally_init_def)
  from 1 2 3 4 show ?thesis by blast
qed

theorem missing_duration_witness:
  "fill_pTask testlib pmon_a task_2 = Inr ptask_2 \<and>
   y_task_try_time_returned task_2 = None \<and> runTime ptask_2 = None \<and>
   plotStats testlib [] (pmon_a\<lparr>pTasks := [ptask_2, ptask_3], pTasksFilled := True\<rparr>) None =
     Inr (pmon_a\<lparr>pTasks := [ptask_2, ptask_3], pTasksFilled := True\<rparr>,
          Some \<lparr>nTasks = 2, nTaskTypes = 1, nDone = 2, nErrors = 1,
                histData = [(''mul'', [13])], printed = [NoRuntime ptask_2]\<rparr>)"
proof -
  note t = missing_duration_is_absent_and_flagged [where L = testlib and m = pmon_a
      and row = task_2 and p = ptask_2]
  have r: "y_task_try_time_returned task_2 = None" by (simp add: task_2_def)
  have 1: "runTime ptask_2 = None"
    using t [THEN conjunct2, THEN conjunct2, THEN conjunct1] fill_pTask_example r by simp
  note u = missing_duration_is_absent_and_flagged
      [where m = "pmon_a\<lparr>pTasks := [ptask_2, ptask_3], pTasksFilled := True\<rparr>"
       and L = testlib and tRowz = "[]" and req = None]
  have e: "plotStats_loop ptally_init [ptask_2, ptask_3] =
      \<lparr>nTasks = 2, nTaskTypes = 1, nDone = 2, nErrors = 1,
                histData = [(''mul'', [13])], printed = [NoRuntime ptask_2]\<rparr>"
    by (simp add: ptally_init_def plotStats_step_def ptask_2_def ptask_3_def sublist_code Let_def)
  have 2: "plotStats testlib [] (pmon_a\<lparr>pTasks := [ptask_2, ptask_3], pTasksFilled := True\<rparr>) None =
     Inr (pmon_a\<lparr>pTasks := [ptask_2, ptask_3], pTasksFilled := True\<rparr>,
          Some \<lparr>nTasks = 2, nTaskTypes = 1, nDone = 2, nErrors = 1,
                histData = [(''mul'', [13])], printed = [NoRuntime ptask_2]\<rparr>)"
    using u [THEN conjunct2, THEN conjunct2, THEN conjunct2, THEN conjunct2, THEN conjunct2,
             THEN conjunct2] e by simp
  from fill_pTask_example r 1 2 show ?thesis by (intro conjI)
qed

subsection \<open>History mode\<close>

lemma sorted_second_of_equal_first:
  fixes a :: "'r \<Rightarrow> int" and b :: "'r \<Rightarrow> string"
  shows "sorted (map (\<lambda>r. (a r, b r)) xs) \<Longrightarrow> \<forall>r\<in>set xs. a r = c \<Longrightarrow> sorted (map b xs)"
  by (induction xs) (auto simp: less_eq_prod_def)

text \<open>
  C8: the rows of the History query of wstat.py are ordered by task id and then by time
  stamp, so the rows of any one task id follow each other in non-decreasing time stamp
  order; the rows of \<open>taskHistoryQuery\<close> of wstat2.py, which are those of one task
  number, are in non-decreasing time stamp order, and so are the rows of any one task id
  among them.
\<close>

theorem history_rows_in_time_order:
  "sorted (map s_timestamp (filter (\<lambda>r. t_task_id r = tid) (history_query taskID joined))) \<and>
   sorted (map (\<lambda>r. (t_task_id r, s_timestamp r)) (history_query taskID joined)) \<and>
   sorted (map h_timestamp (taskHis_query W tasknum req status' joined2)) \<and>
   sorted (map h_timestamp (filter (\<lambda>r. h_task_id r = tid2)
                              (taskHis_query W tasknum req status' joined2)))"
proof -
  have k: "sorted (map (\<lambda>r. (t_task_id r, s_timestamp r)) (history_query taskID joined))"
    by (simp add: history_query_def)
  then have "sorted (map (\<lambda>r. (t_task_id r, s_timestamp r))
                 (filter (\<lambda>r. t_task_id r = tid) (history_query taskID joined)))"
    by (rule sorted_filter)
  then have 1: "sorted (map s_timestamp (filter (\<lambda>r. t_task_id r = tid) (history_query taskID joined)))"
    by (rule sorted_second_of_equal_first [where c = tid]) simp
  have 2: "sorted (map h_timestamp (taskHis_query W tasknum req status' joined2))"
    by (simp add: taskHis_query_def)
  then have 3: "sorted (map h_timestamp (filter (\<lambda>r. h_task_id r = tid2)
                              (taskHis_query W tasknum req status' joined2)))"
    by (rule sorted_filter)
  from 1 k 2 3 show ?thesis by simp
qed

subsection \<open>The status matrix\<close>

lemma update_append_new:
  "k \<notin> fst ` set al \<Longrightarrow> AList.update k v al = al @ [(k, v)]"
  by (induction al) auto

lemma update_map_key:
  "distinct ks \<Longrightarrow> k \<in> set ks \<Longrightarrow>
     AList.update k v (map (\<lambda>s. (s, f s)) ks @ rest) = map (\<lambda>s. (s, (f(k := v)) s)) ks @ rest"
  by (induction ks) auto

lemma build_statTemplate_distinct:
  assumes "distinct sl"
  shows "build_statTemplate sl = map (\<lambda>s. (s, 0)) sl"
proof -
  have "distinct sl \<Longrightarrow> set sl \<inter> fst ` set acc = {} \<Longrightarrow>
          fold (\<lambda>state d. AList.update state 0 d) sl acc = acc @ map (\<lambda>s. (s, 0::nat)) sl"
    for acc
  proof (induction sl arbitrary: acc)
    case Nil
    show ?case by simp
  next
    case (Cons s sl)
    have "AList.update s 0 acc = acc @ [(s, 0)]"
      using Cons.prems by (intro update_append_new) auto
    moreover have "set sl \<inter> fst ` set (acc @ [(s, 0::nat)]) = {}"
      using Cons.prems by auto
    ultimately show ?case using Cons.IH [of "acc @ [(s, 0)]"] Cons.prems by simp
  qed
  from this [of "[]"] assms show ?thesis by (simp add: build_statTemplate_def)
qed

lemma map_of_map_key:
  "map_of (map (\<lambda>s. (s, f s)) ks) k = (if k \<in> set ks then Some (f k) else None)"
  by (induction ks) auto

lemma map_of_row_of:
  "map_of (row_of sl f g) k =
     (if k \<in> set sl then Some (f k) else if k = ''TOTAL'' then Some g else None)"
  by (simp add: row_of_def map_of_append map_add_def map_of_map_key)

lemma dict_incr_row_state:
  assumes "distinct sl" "s \<in> set sl"
  shows "dict_incr (row_of sl f g) s = Inr (row_of sl (f(s := f s + 1)) g)"
proof -
  have m: "map_of (row_of sl f g) s = Some (f s)"
    using assms by (simp add: map_of_row_of)
  have u: "AList.update s v (row_of sl f g) = row_of sl (f(s := v)) g" for v
    unfolding row_of_def using assms by (rule update_map_key)
  show ?thesis by (simp add: dict_incr_def m u)
qed

lemma dict_incr_row_total:
  assumes "''TOTAL'' \<notin> set sl"
  shows "dict_incr (row_of sl f g) ''TOTAL'' = Inr (row_of sl f (g + 1))"
proof -
  have m: "map_of (row_of sl f g) ''TOTAL'' = Some g"
    using assms by (simp add: map_of_row_of)
  have "AList.update ''TOTAL'' v (map (\<lambda>s. (s, f s)) sl @ [(''TOTAL'', g)]) =
          map (\<lambda>s. (s, f s)) sl @ [(''TOTAL'', v)]" for v
    using assms by (induction sl) auto
  then have u: "AList.update ''TOTAL'' v (row_of sl f g) = row_of sl f v" for v
    by (simp add: row_of_def)
  show ?thesis by (simp add: dict_incr_def m u)
qed

lemma dict_incr_row_unknown:
  "s \<notin> set sl \<Longrightarrow> s \<noteq> ''TOTAL'' \<Longrightarrow> dict_incr (row_of sl f g) s = Inl KeyError"
  by (simp add: dict_incr_def map_of_row_of)

lemma template_row:
  "distinct sl \<Longrightarrow> ''TOTAL'' \<notin> set sl \<Longrightarrow>
     AList.update ''TOTAL'' 0 (build_statTemplate sl) = row_of sl (\<lambda>s. 0) 0"
  by (simp add: build_statTemplate_distinct row_of_def update_append_new image_iff)

lemma tally_loop_append:
  "tally_loop tmpl st (xs @ ys) = ebind (tally_loop tmpl st xs) (\<lambda>st'. tally_loop tmpl st' ys)"
proof (induction xs arbitrary: st)
  case Nil
  show ?case by simp
next
  case (Cons x xs)
  show ?case by (cases "tally_step tmpl st x") (simp_all add: Cons.IH)
qed

lemma sum_list_indicator:
  "distinct ks \<Longrightarrow> x \<in> set ks \<Longrightarrow> sum_list (map (\<lambda>k. if x = k then (1::nat) else 0) ks) = 1"
proof (induction ks)
  case Nil
  then show ?case by simp
next
  case (Cons k ks)
  have "x \<notin> set ks \<Longrightarrow> sum_list (map (\<lambda>k. if x = k then (1::nat) else 0) ks) = 0"
    by (induction ks) auto
  with Cons show ?case by auto
qed

lemma sum_list_count_by_key:
  "distinct ks \<Longrightarrow> \<forall>r\<in>set rs. key r \<in> set ks \<Longrightarrow>
     sum_list (map (\<lambda>k. length (filter (\<lambda>r. key r = k \<and> P r) rs)) ks) = length (filter P rs)"
proof (induction rs)
  case Nil
  show ?case by simp
next
  case (Cons r rs)
  have "sum_list (map (\<lambda>k. length (filter (\<lambda>r. key r = k \<and> P r) (r # rs))) ks) =
        sum_list (map (\<lambda>k. (if key r = k then (if P r then 1 else 0) else 0) +
                         length (filter (\<lambda>r. key r = k \<and> P r) rs)) ks)"
    by (intro arg_cong [of _ _ sum_list] map_cong) auto
  also have "\<dots> = sum_list (map (\<lambda>k. if key r = k then (if P r then 1 else 0) else 0) ks) +
                   length (filter P rs)"
    using Cons by (simp add: sum_list_addf)
  also have "sum_list (map (\<lambda>k. if key r = k then (if P r then 1 else 0) else (0::nat)) ks) =
               (if P r then 1 else 0)"
    using sum_list_indicator [of ks "key r"] Cons.prems by (cases "P r") simp_all
  finally show ?case by simp
qed

lemma tally_step_unfold:
  "tally_step tmpl (a, b) (n0, s0) =
     ebind (dict_get (if n0 \<notin> set (map fst a)
                      then AList.update n0 (AList.update ''TOTAL'' 0 tmpl) a else a) n0) (\<lambda>row.
     ebind (dict_incr row s0) (\<lambda>row1.
     ebind (dict_incr row1 ''TOTAL'') (\<lambda>row2.
     ebind (dict_incr b s0) (\<lambda>tot1.
     ebind (dict_incr tot1 ''TOTAL'') (\<lambda>tot2.
       Inr (AList.update n0 row2 (if n0 \<notin> set (map fst a)
                      then AList.update n0 (AList.update ''TOTAL'' 0 tmpl) a else a), tot2))))))"
  by (simp add: tally_step_def Let_def)

lemma tally_step_state:
  assumes sl: "distinct sl" "''TOTAL'' \<notin> set sl"
    and names: "distinct names" "set names = fst ` set rs"
    and s0: "s0 \<in> set sl"
  shows "\<exists>names'. distinct names' \<and> set names' = fst ` set (rs @ [(n0, s0)]) \<and>
           tally_step (build_statTemplate sl) (tally_state sl names rs) (n0, s0) =
             Inr (tally_state sl names' (rs @ [(n0, s0)]))"
proof -
  let ?rs' = "rs @ [(n0, s0)]"
  define R where "R n = row_of sl (\<lambda>s. length (filter (\<lambda>r. fst r = n \<and> snd r = s) rs))
                     (length (filter (\<lambda>r. fst r = n) rs))" for n
  define R' where "R' n = row_of sl (\<lambda>s. length (filter (\<lambda>r. fst r = n \<and> snd r = s) ?rs'))
                     (length (filter (\<lambda>r. fst r = n) ?rs'))" for n
  define names' where "names' = (if n0 \<in> set names then names else names @ [n0])"
  have d': "distinct names'" and s': "set names' = fst ` set ?rs'" and n0': "n0 \<in> set names'"
    using names by (auto simp: names'_def)
  have ts: "fst (tally_state sl names rs) = map (\<lambda>n. (n, R n)) names"
    by (simp add: tally_state_def R_def)
  have new: "R n0 = row_of sl (\<lambda>s. 0) 0" if "n0 \<notin> set names"
  proof -
    have "filter (\<lambda>r. fst r = n0) rs = []" "\<And>s. filter (\<lambda>r. fst r = n0 \<and> snd r = s) rs = []"
      using that names(2) by (auto simp: filter_empty_conv)
    then show ?thesis by (simp add: R_def)
  qed
  have ts1: "(if n0 \<notin> set (map fst (map (\<lambda>n. (n, R n)) names))
              then AList.update n0 (AList.update ''TOTAL'' 0 (build_statTemplate sl))
                     (map (\<lambda>n. (n, R n)) names)
              else map (\<lambda>n. (n, R n)) names) = map (\<lambda>n. (n, R n)) names'"
  proof (cases "n0 \<in> set names")
    case True
    then show ?thesis by (simp add: names'_def comp_def)
  next
    case False
    then have "n0 \<notin> fst ` set (map (\<lambda>n. (n, R n)) names)" by (auto simp: image_iff)
    then have "AList.update n0 (row_of sl (\<lambda>s. 0) 0) (map (\<lambda>n. (n, R n)) names) =
                 map (\<lambda>n. (n, R n)) names @ [(n0, row_of sl (\<lambda>s. 0) 0)]"
      by (rule update_append_new)
    with False new show ?thesis
      by (simp add: names'_def comp_def template_row [OF sl])
  qed
  have get: "dict_get (map (\<lambda>n. (n, R n)) names') n0 = Inr (R n0)"
    using n0' by (simp add: dict_get_def map_of_map_key)
  have r1: "dict_incr (R n0) s0 =
      Inr (row_of sl ((\<lambda>s. length (filter (\<lambda>r. fst r = n0 \<and> snd r = s) rs))
                       (s0 := length (filter (\<lambda>r. fst r = n0 \<and> snd r = s0) rs) + 1))
             (length (filter (\<lambda>r. fst r = n0) rs)))"
    unfolding R_def by (rule dict_incr_row_state [OF sl(1) s0])
  have fe: "(\<lambda>s. length (filter (\<lambda>r. fst r = n0 \<and> snd r = s) rs))
              (s0 := length (filter (\<lambda>r. fst r = n0 \<and> snd r = s0) rs) + 1) =
            (\<lambda>s. length (filter (\<lambda>r. fst r = n0 \<and> snd r = s) ?rs'))"
    by (rule ext) simp
  have ce: "length (filter (\<lambda>r. fst r = n0) rs) + 1 = length (filter (\<lambda>r. fst r = n0) ?rs')"
    by simp
  define X1 where "X1 = row_of sl (\<lambda>s. length (filter (\<lambda>r. fst r = n0 \<and> snd r = s) ?rs'))
                          (length (filter (\<lambda>r. fst r = n0) rs))"
  have r1': "dict_incr (R n0) s0 = Inr X1"
    using r1 unfolding fe X1_def .
  have r2': "dict_incr X1 ''TOTAL'' = Inr (R' n0)"
    unfolding X1_def R'_def ce [symmetric] by (rule dict_incr_row_total [OF sl(2)])
  have te: "(\<lambda>s. length (filter (\<lambda>r. snd r = s) rs))
              (s0 := length (filter (\<lambda>r. snd r = s0) rs) + 1) =
            (\<lambda>s. length (filter (\<lambda>r. snd r = s) ?rs'))"
    by (rule ext) simp
  define T where "T = row_of sl (\<lambda>s. length (filter (\<lambda>r. snd r = s) rs)) (length rs)"
  define Y1 where "Y1 = row_of sl (\<lambda>s. length (filter (\<lambda>r. snd r = s) ?rs')) (length rs)"
  define T' where "T' = row_of sl (\<lambda>s. length (filter (\<lambda>r. snd r = s) ?rs')) (length ?rs')"
  have t1': "dict_incr T s0 = Inr Y1"
    using dict_incr_row_state [OF sl(1) s0, of "\<lambda>s. length (filter (\<lambda>r. snd r = s) rs)" "length rs"]
    unfolding te T_def Y1_def .
  have le: "length rs + 1 = length ?rs'" by simp
  have t2': "dict_incr Y1 ''TOTAL'' = Inr T'"
    unfolding Y1_def T'_def le [symmetric] by (rule dict_incr_row_total [OF sl(2)])
  have up: "AList.update n0 (R' n0) (map (\<lambda>n. (n, R n)) names') = map (\<lambda>n. (n, R' n)) names'"
  proof -
    have "AList.update n0 (R' n0) (map (\<lambda>n. (n, R n)) names' @ []) =
            map (\<lambda>n. (n, (R(n0 := R' n0)) n)) names' @ []"
      using d' n0' by (rule update_map_key)
    moreover have "R n = R' n" if "n \<noteq> n0" for n
      using that by (simp add: R_def R'_def)
    ultimately show ?thesis by (auto intro!: map_cong)
  qed
  have before: "tally_state sl names rs = (map (\<lambda>n. (n, R n)) names, T)"
    by (simp add: tally_state_def R_def T_def)
  have after: "tally_state sl names' ?rs' = (map (\<lambda>n. (n, R' n)) names', T')"
    unfolding tally_state_def R'_def T'_def ..
  have "tally_step (build_statTemplate sl) (tally_state sl names rs) (n0, s0) =
          Inr (tally_state sl names' ?rs')"
    by (simp only: before after tally_step_unfold ts1 get ebind_Inr r1' r2' t1' t2' up)
  with d' s' show ?thesis by blast
qed

lemma tally_loop_state:
  assumes sl: "distinct sl" "''TOTAL'' \<notin> set sl"
  shows "\<forall>r\<in>set rs. snd r \<in> set sl \<Longrightarrow>
     \<exists>names. distinct names \<and> set names = fst ` set rs \<and>
       tally_loop (build_statTemplate sl) ([], AList.update ''TOTAL'' 0 (build_statTemplate sl)) rs =
         Inr (tally_state sl names rs)"
proof (induction rs rule: rev_induct)
  case Nil
  have "tally_state sl [] [] = ([], row_of sl (\<lambda>s. 0) 0)" by (simp add: tally_state_def)
  then show ?case by (intro exI [of _ "[]"]) (simp add: template_row [OF sl])
next
  case (snoc r rs)
  obtain n0 s0 where r: "r = (n0, s0)" by (cases r)
  from snoc.prems r have s0: "s0 \<in> set sl" and rest: "\<forall>r\<in>set rs. snd r \<in> set sl" by simp_all
  from snoc.IH [OF rest] obtain names where
    names: "distinct names" "set names = fst ` set rs"
    and run: "tally_loop (build_statTemplate sl)
                ([], AList.update ''TOTAL'' 0 (build_statTemplate sl)) rs =
              Inr (tally_state sl names rs)" by blast
  from tally_step_state [OF sl names s0, of n0] obtain names' where
    names': "distinct names'" "set names' = fst ` set (rs @ [(n0, s0)])"
    and step: "tally_step (build_statTemplate sl) (tally_state sl names rs) (n0, s0) =
             Inr (tally_state sl names' (rs @ [(n0, s0)]))" by blast
  have "tally_loop (build_statTemplate sl)
          ([], AList.update ''TOTAL'' 0 (build_statTemplate sl)) (rs @ [r]) =
        Inr (tally_state sl names' (rs @ [r]))"
    by (simp add: tally_loop_append run r step)
  with names' r show ?case by blast
qed

lemma state_cells_row_of:
  "''TOTAL'' \<notin> set sl \<Longrightarrow> state_cells (row_of sl f g) = map (\<lambda>s. (s, f s)) sl"
proof -
  assume t: "''TOTAL'' \<notin> set sl"
  then have "filter (\<lambda>x. x \<noteq> ''TOTAL'') sl = sl" by (auto simp: filter_id_conv)
  then show ?thesis by (simp add: state_cells_def row_of_def filter_map comp_def)
qed

lemma row_sum_row_of:
  "''TOTAL'' \<notin> set sl \<Longrightarrow> row_sum (row_of sl f g) = sum_list (map f sl)"
  by (simp add: row_sum_def state_cells_row_of comp_def)

lemma cell_row_of:
  "''TOTAL'' \<notin> set sl \<Longrightarrow> cell (row_of sl f g) ''TOTAL'' = g"
  "s \<in> set sl \<Longrightarrow> cell (row_of sl f g) s = f s"
  by (simp_all add: cell_def map_of_row_of)

lemma status_matrix_counts:
  assumes sl: "distinct sl" "''TOTAL'' \<notin> set sl"
    and rs: "\<forall>r\<in>set rs. snd r \<in> set sl \<and> fst r \<noteq> ''TOTAL''"
  shows "\<exists>M. status_matrix (build_statTemplate sl) rs = Inr M \<and> totals_ok M (length rs)"
proof -
  from rs have st: "\<forall>r\<in>set rs. snd r \<in> set sl" by simp
  from tally_loop_state [OF sl st] obtain names where
    names: "distinct names" "set names = fst ` set rs"
    and run: "tally_loop (build_statTemplate sl)
                ([], AList.update ''TOTAL'' 0 (build_statTemplate sl)) rs =
              Inr (tally_state sl names rs)" by blast
  define R where "R n = row_of sl (\<lambda>s. length (filter (\<lambda>r. fst r = n \<and> snd r = s) rs))
                     (length (filter (\<lambda>r. fst r = n) rs))" for n
  define T where "T = row_of sl (\<lambda>s. length (filter (\<lambda>r. snd r = s) rs)) (length rs)"
  define ts where "ts = map (\<lambda>n. (n, R n)) names"
  have tsT: "tally_state sl names rs = (ts, T)"
    by (simp add: tally_state_def ts_def R_def T_def)
  have nt: "''TOTAL'' \<notin> set names" using names(2) rs by auto
  then have "''TOTAL'' \<notin> fst ` set ts" by (auto simp: ts_def)
  then have upd: "AList.update ''TOTAL'' T ts = ts @ [(''TOTAL'', T)]"
    by (rule update_append_new)
  define M where "M = ts @ [(''TOTAL'', T)]"
  have res: "status_matrix (build_statTemplate sl) rs = Inr M"
    by (simp add: status_matrix_def run tsT upd M_def)
  have tr: "type_rows M = ts"
    using nt by (auto simp: type_rows_def M_def ts_def filter_id_conv)
  have mt: "map_of M ''TOTAL'' = Some T"
    using nt by (simp add: M_def ts_def map_of_append map_add_def map_of_map_key)
  have tot: "total_row M = T" by (simp add: total_row_def mt)
  have rowsum: "sum_list (map (\<lambda>s. length (filter (\<lambda>r. fst r = n \<and> snd r = s) rs)) sl) =
                  length (filter (\<lambda>r. fst r = n) rs)" for n
    using sum_list_count_by_key [OF sl(1), of rs snd "\<lambda>r. fst r = n"] st
    by (simp add: conj_commute)
  have colsum: "sum_list (map (\<lambda>n. length (filter (\<lambda>r. fst r = n \<and> snd r = s) rs)) names) =
                  length (filter (\<lambda>r. snd r = s) rs)" for s
    using sum_list_count_by_key [OF names(1), of rs fst "\<lambda>r. snd r = s"] names(2) by simp
  have allsum: "sum_list (map (\<lambda>n. length (filter (\<lambda>r. fst r = n) rs)) names) = length rs"
    using sum_list_count_by_key [OF names(1), of rs fst "\<lambda>r. True"] names(2) by simp
  have totsum: "sum_list (map (\<lambda>s. length (filter (\<lambda>r. snd r = s) rs)) sl) = length rs"
    using sum_list_count_by_key [OF sl(1), of rs snd "\<lambda>r. True"] st by simp
  have 1: "sum_list (map (\<lambda>(name, row). row_sum row) (type_rows M)) = length rs"
    by (simp add: tr ts_def comp_def R_def row_sum_row_of [OF sl(2)] rowsum allsum)
  have 3: "cell (total_row M) ''TOTAL'' = length rs"
    by (simp add: tot T_def cell_row_of(1) [OF sl(2)])
  have 4: "list_all (\<lambda>(name, row). cell row ''TOTAL'' = row_sum row) M"
    by (simp add: M_def ts_def list_all_iff R_def T_def cell_row_of(1) [OF sl(2)]
          row_sum_row_of [OF sl(2)] rowsum totsum)
  have 5: "list_all (\<lambda>(state, k). k = sum_list (map (\<lambda>(name, row). cell row state) (type_rows M)))
       (state_cells (total_row M))"
  proof -
    have "sum_list (map (\<lambda>(name, row). cell row s) ts) = length (filter (\<lambda>r. snd r = s) rs)"
      if "s \<in> set sl" for s
      using that by (simp add: ts_def comp_def R_def cell_row_of(2) colsum)
    then show ?thesis
      by (simp add: tot tr T_def state_cells_row_of [OF sl(2)] list_all_iff)
  qed
  from 1 3 4 5 mt have "totals_ok M (length rs)" by (simp add: totals_ok_def)
  with res show ?thesis by blast
qed

lemma statList_ok:
  "distinct statList_wstat" "''TOTAL'' \<notin> set statList_wstat"
  "distinct statList_wstat2" "''TOTAL'' \<notin> set statList_wstat2"
  by (simp_all add: statList_wstat_def statList_wstat2_def)

lemma build_statTemplate_wstat:
  "build_statTemplate statList_wstat =
     [(''pending'', 0), (''launched'', 0), (''joining'', 0), (''running'', 0),
      (''unsched'', 0), (''unknown'', 0), (''exec_done'', 0), (''memo_done'', 0),
      (''failed'', 0), (''dep_fail'', 0), (''fail_retryable'', 0)]"
  by (simp add: build_statTemplate_distinct statList_ok) (simp add: statList_wstat_def)

lemma build_statTemplate_wstat2:
  "build_statTemplate statList_wstat2 =
     [(''pending'', 0), (''launched'', 0), (''running'', 0), (''joining'', 0),
      (''running_ended'', 0), (''unsched'', 0), (''unknown'', 0), (''exec_done'', 0),
      (''memo_done'', 0), (''failed'', 0), (''dep_fail'', 0), (''fail_retryable'', 0)]"
  by (simp add: build_statTemplate_distinct statList_ok) (simp add: statList_wstat2_def)

lemma taskStatusMatrix_example:
  "taskStatusMatrix [] ((pmon2_init [run_a])\<lparr>trows := [srow_0, srow_2, srow_1], sumFlag := True\<rparr>) =
     Inr ((pmon2_init [run_a])\<lparr>trows := [srow_0, srow_2, srow_1], sumFlag := True\<rparr>,
          Some matrix_add)"
  by (simp add: taskStatusMatrix_def pmon2_init_def loadWorkflowTable_def status_matrix_def
        tally_step_def build_statTemplate_wstat2 dict_get_def dict_incr_def
        srow_0_def srow_1_def srow_2_def matrix_add_def Let_def)

lemma getTaskData_statTemplate:
  assumes "getTaskData L tRowz m req ts = Inr (m1, c)"
  shows "statTemplate m1 = statTemplate m"
proof -
  from assms obtain m0 where
    loop: "getTaskData_loop L ts m \<lparr>rCount = 0, grCount = 0, nRunning = 0\<rparr> tRowz = Inr (m0, c)"
    and m1: "m1 = m0\<lparr>pTasksFilled := True\<rparr>"
    by (auto simp: getTaskData_def ebind_eq_Inr)
  from getTaskData_loop_post [OF loop] obtain new where
    e: "m0 = m\<lparr>nodeUsage := nodeUsage m0, pTasks := pTasks m @ new\<rparr>" by blast
  have "statTemplate m0 = statTemplate m" by (subst e) simp
  with m1 show ?thesis by simp
qed


text \<open>
  C1, as stated, fails when a task type is named \<open>TOTAL\<close>: for one task of that type
  and one of type \<open>add\<close>, both in the state \<open>exec_done\<close>, the final assignment
  \<open>taskStats['TOTAL'] = dict(statTotals)\<close> replaces the row of the task type, so the
  state cells of the task types add up to 1 while the grand total and the number of
  tasks are 2.
\<close>

theorem task_type_named_TOTAL_breaks_totals:
  "printStatusMatrix testlib [] (pmon_a\<lparr>pTasks := [ptask_T, ptask_2], pTasksFilled := True\<rparr>) None =
     Inr (pmon_a\<lparr>pTasks := [ptask_T, ptask_2], pTasksFilled := True\<rparr>, Some matrix_T) \<and>
   \<not> totals_ok matrix_T 2"
  by (simp add: printStatusMatrix_def pmon_a_def status_matrix_def tally_step_def
        build_statTemplate_wstat dict_get_def dict_incr_def ptask_T_def ptask_2_def matrix_T_def
        Let_def totals_ok_def type_rows_def row_sum_def state_cells_def)

text \<open>
  C1, amended: when the task data are loaded (or the loading that the function starts
  with succeeds) and are not empty, if every status is in the program's state list and
  no task type is named \<open>TOTAL\<close>, the status matrix is made without an exception
  and its totals are right: the state cells of all task types add up to the number of
  tasks, which is also the cell \<open>TOTAL\<close> of the row \<open>TOTAL\<close>; the cell \<open>TOTAL\<close>
  of every row is the sum of the row's state cells; every state cell of the row
  \<open>TOTAL\<close> is the sum of that state over the task types.
\<close>

theorem status_matrix_totals_hold:
  assumes "statTemplate m = build_statTemplate statList_wstat"
    and "(if \<not> pTasksFilled m
          then ebind (getTaskData L tRowz m req None) (\<lambda>(m', c). Inr m') else Inr m) = Inr m1"
    and "pTasks m1 \<noteq> []"
    and "\<forall>t\<in>set (pTasks m1). status t \<in> set statList_wstat \<and> task_name t \<noteq> ''TOTAL''"
    and "statTemplate m2 = build_statTemplate statList_wstat2"
    and "m3 = (if \<not> sumFlag m2 then m2\<lparr>trows := summary, sumFlag := True\<rparr> else m2)"
    and "trows m3 \<noteq> []"
    and "\<forall>t\<in>set (trows m3). s_status t \<in> set statList_wstat2 \<and> s_function t \<noteq> ''TOTAL''"
  shows "(\<exists>M. printStatusMatrix L tRowz m req = Inr (m1, Some M) \<and>
              totals_ok M (length (pTasks m1))) \<and>
         (\<exists>M. taskStatusMatrix summary m2 = Inr (m3, Some M) \<and>
              totals_ok M (length (trows m3)))"
proof -
  have st1: "statTemplate m1 = build_statTemplate statList_wstat"
  proof (cases "pTasksFilled m")
    case True
    with assms(1,2) show ?thesis by simp
  next
    case False
    with assms(2) obtain c where "getTaskData L tRowz m req None = Inr (m1, c)"
      by (auto simp: ebind_eq_Inr)
    from getTaskData_statTemplate [OF this] assms(1) show ?thesis by simp
  qed
  let ?rs = "map (\<lambda>task. (task_name task, status task)) (pTasks m1)"
  have "\<forall>r\<in>set ?rs. snd r \<in> set statList_wstat \<and> fst r \<noteq> ''TOTAL''"
    using assms(4) by simp
  from status_matrix_counts [OF statList_ok(1,2) this] obtain M where
    M: "status_matrix (build_statTemplate statList_wstat) ?rs = Inr M" "totals_ok M (length ?rs)"
    by blast
  have 1: "printStatusMatrix L tRowz m req = Inr (m1, Some M)"
    unfolding printStatusMatrix_def assms(2) using assms(3) M(1) st1 by simp
  have st3: "statTemplate m3 = build_statTemplate statList_wstat2"
    using assms(5,6) by simp
  let ?rs2 = "map (\<lambda>task. (s_function task, s_status task)) (trows m3)"
  have "\<forall>r\<in>set ?rs2. snd r \<in> set statList_wstat2 \<and> fst r \<noteq> ''TOTAL''"
    using assms(8) by simp
  from status_matrix_counts [OF statList_ok(3,4) this] obtain M2 where
    M2: "status_matrix (build_statTemplate statList_wstat2) ?rs2 = Inr M2"
    "totals_ok M2 (length ?rs2)"
    by blast
  have 2: "taskStatusMatrix summary m2 = Inr (m3, Some M2)"
    unfolding taskStatusMatrix_def assms(6) [symmetric] Let_def using assms(7) M2(1) st3 by simp
  from 1 2 M(2) M2(2) show ?thesis by auto
qed

theorem status_matrix_totals_hold_witness:
  "(\<exists>M. printStatusMatrix testlib [task_0, task_1, task_2, task_3] pmon_a None =
          Inr (pmon_a\<lparr>nodeUsage := [(''node07'', 1), (''unknown'', 1)],
                      pTasks := [ptask_0, ptask_1, ptask_2, ptask_3], pTasksFilled := True\<rparr>,
               Some M) \<and>
        totals_ok M 4) \<and>
   taskStatusMatrix [] ((pmon2_init [run_a])\<lparr>trows := [srow_0, srow_2, srow_1], sumFlag := True\<rparr>) =
     Inr ((pmon2_init [run_a])\<lparr>trows := [srow_0, srow_2, srow_1], sumFlag := True\<rparr>,
          Some matrix_add) \<and>
   totals_ok matrix_add 3"
proof -
  let ?m1 = "pmon_a\<lparr>nodeUsage := [(''node07'', 1), (''unknown'', 1)],
                      pTasks := [ptask_0, ptask_1, ptask_2, ptask_3], pTasksFilled := True\<rparr>"
  let ?m2 = "(pmon2_init [run_a])\<lparr>trows := [srow_0, srow_2, srow_1], sumFlag := True\<rparr>"
  have h1: "statTemplate pmon_a = build_statTemplate statList_wstat" by (simp add: pmon_a_def)
  have nf: "\<not> pTasksFilled pmon_a" by (simp add: pmon_a_def)
  have h2: "(if \<not> pTasksFilled pmon_a
          then ebind (getTaskData testlib [task_0, task_1, task_2, task_3] pmon_a None None)
                 (\<lambda>(m', c). Inr m') else Inr pmon_a) = Inr ?m1"
    by (simp only: nf getTaskData_example if_True not_False_eq_True) simp
  have h3: "pTasks ?m1 \<noteq> []" by simp
  have h4: "\<forall>t\<in>set (pTasks ?m1). status t \<in> set statList_wstat \<and> task_name t \<noteq> ''TOTAL''"
    by (simp add: ptask_0_def ptask_1_def ptask_2_def ptask_3_def statList_wstat_def)
  have h5: "statTemplate ?m2 = build_statTemplate statList_wstat2"
    by (simp add: pmon2_init_def loadWorkflowTable_def Let_def)
  have h6: "?m2 = (if \<not> sumFlag ?m2 then ?m2\<lparr>trows := [], sumFlag := True\<rparr> else ?m2)"
    by simp
  have h7: "trows ?m2 \<noteq> []" by simp
  have h8: "\<forall>t\<in>set (trows ?m2). s_status t \<in> set statList_wstat2 \<and> s_function t \<noteq> ''TOTAL''"
    by (simp add: srow_0_def srow_1_def srow_2_def statList_wstat2_def)
  from status_matrix_totals_hold [OF h1 h2 h3 h4 h5 h6 h7 h8]
  obtain M M2 where
    a: "printStatusMatrix testlib [task_0, task_1, task_2, task_3] pmon_a None = Inr (?m1, Some M)"
       "totals_ok M (length (pTasks ?m1))"
    and b: "taskStatusMatrix [] ?m2 = Inr (?m2, Some M2)" "totals_ok M2 (length (trows ?m2))"
    by blast
  from b(1) taskStatusMatrix_example have "M2 = matrix_add" by simp
  with b(2) have "totals_ok matrix_add 3" by (simp add: numeral_3_eq_3)
  moreover from a(2) have "totals_ok M 4" by (simp add: eval_nat_numeral)
  ultimately show ?thesis using a(1) taskStatusMatrix_example by blast
qed

text \<open>
  C2, on the code: a task whose status is not in the state list is not counted under
  \<open>unknown\<close>. \<open>taskStats[tName][tStat] += 1\<close> raises KeyError, nothing catches it,
  and no matrix is printed: in wstat.py for the state \<open>running_ended\<close>, which its
  state list lacks, and in wstat2.py for a state such as \<open>held\<close>.
\<close>

theorem unknown_status_raises_KeyError:
  "printStatusMatrix testlib [] (pmon_a\<lparr>pTasks := [ptask_e], pTasksFilled := True\<rparr>) None =
     Inl KeyError \<and>
   taskStatusMatrix [] ((pmon2_init [run_a])\<lparr>trows := [srow_0, srow_h], sumFlag := True\<rparr>) =
     Inl KeyError"
  by (simp add: printStatusMatrix_def taskStatusMatrix_def pmon_a_def pmon2_init_def
        loadWorkflowTable_def status_matrix_def tally_step_def
        build_statTemplate_wstat build_statTemplate_wstat2 dict_get_def dict_incr_def
        ptask_e_def srow_0_def srow_h_def Let_def)


subsection \<open>Status presets\<close>

text \<open>
  C5, as stated, for wstat.py: the claim gives \<open>runz\<close> eight states; the preset table of
  wstat.py, the only one its status filter reads, has no \<open>joining\<close> and no
  \<open>running_ended\<close> in \<open>runz\<close>.
\<close>

theorem statPresets_wstat_runz_differs:
  "preset_states statPresets_wstat ''runz'' \<noteq>
     {''running'', ''joining'', ''running_ended'', ''exec_done'', ''memo_done'', ''failed'',
      ''dep_fail'', ''fail_retryable''}"
proof
  assume eq: "preset_states statPresets_wstat ''runz'' =
     {''running'', ''joining'', ''running_ended'', ''exec_done'', ''memo_done'', ''failed'',
      ''dep_fail'', ''fail_retryable''}"
  have "''joining'' \<in> preset_states statPresets_wstat ''runz''"
    unfolding eq by simp
  then show False
    by (simp add: preset_states_def statPresets_wstat_def)
qed

text \<open>
  C5, amended: both tables have exactly the four presets notdone, runz, dead, oddball;
  wstat2.py's sets are the ones of the spec; wstat.py agrees on notdone, dead and oddball,
  and its runz is running, exec_done, memo_done, failed, dep_fail, fail_retryable.
\<close>

theorem statPresets_sets:
  "map fst statPresets_wstat2 = [''notdone'', ''runz'', ''dead'', ''oddball''] \<and>
   preset_states statPresets_wstat2 ''notdone'' = {''pending'', ''launched'', ''running''} \<and>
   preset_states statPresets_wstat2 ''runz'' =
     {''running'', ''joining'', ''running_ended'', ''exec_done'', ''memo_done'', ''failed'',
      ''dep_fail'', ''fail_retryable''} \<and>
   preset_states statPresets_wstat2 ''dead'' =
     {''exec_done'', ''memo_done'', ''failed'', ''dep_fail'', ''fail_retryable''} \<and>
   preset_states statPresets_wstat2 ''oddball'' = {''unsched'', ''unknown''} \<and>
   map fst statPresets_wstat = [''notdone'', ''runz'', ''dead'', ''oddball''] \<and>
   preset_states statPresets_wstat ''notdone'' = {''pending'', ''launched'', ''running''} \<and>
   preset_states statPresets_wstat ''runz'' =
     {''running'', ''exec_done'', ''memo_done'', ''failed'', ''dep_fail'', ''fail_retryable''} \<and>
   preset_states statPresets_wstat ''dead'' =
     {''exec_done'', ''memo_done'', ''failed'', ''dep_fail'', ''fail_retryable''} \<and>
   preset_states statPresets_wstat ''oddball'' = {''unsched'', ''unknown''}"
  by (simp add: preset_states_def statPresets_wstat_def statPresets_wstat2_def)

end
